theory Spec2Isabelle
  imports Main
begin

section \<open>Data model: the persisted tables\<close>

text \<open>
  Identifiers are UUIDs in the source (\<^verbatim>\<open>DataTypes.UUID\<close>, default \<^verbatim>\<open>UUIDV4\<close>); only
  their equality is ever used, so they are natural numbers here. A freshly drawn UUID and
  the clock value of \<^verbatim>\<open>new Date()\<close> / the \<^verbatim>\<open>createdAt\<close> default are arguments of the
  operation that draws them. A text value is a \<open>string\<close> whose elements stand for the units
  that the validator's \<^verbatim>\<open>len\<close> counts.
\<close>

type_synonym uuid = nat
type_synonym date = nat

text \<open>
  Modelled from the spec: the \<^verbatim>\<open>User\<close> model file is not among the sources; only the
  columns that the connection handlers write (\<^verbatim>\<open>isOnline\<close>, \<^verbatim>\<open>lastSeen\<close>) and read
  (\<^verbatim>\<open>id\<close>, \<^verbatim>\<open>username\<close>) are kept (spec: "opaque user identifier, display fields,
  online flag, last-seen timestamp").
\<close>

record user =
  user_id :: uuid
  username :: string
  isOnline :: bool
  lastSeen :: "date option"

record team =
  team_id :: uuid
  team_name :: string
  team_description :: "string option"
  ownerId :: uuid
  inviteCode :: "string option"

record channel =
  channel_id :: uuid
  channel_name :: string
  channel_description :: "string option"
  chan_teamId :: uuid
  createdById :: uuid
  isPrivate :: bool
  lastMessageId :: "uuid option"

datatype message_type = Text | File | Image | System

record message =
  message_id :: uuid
  content :: string
  senderId :: uuid
  msg_channelId :: uuid
  msg_teamId :: uuid
  messageType :: message_type
  fileUrl :: "string option"
  editedAt :: "date option"
  parentMessageId :: "uuid option"
  createdAt :: date

datatype role = Admin | Member

text \<open>
  The three junction tables. Their surrogate \<^verbatim>\<open>id\<close> and the \<^verbatim>\<open>joinedAt\<close> default are
  written by the library and read by no controller; the rows keep the columns the
  controllers pass and query.
\<close>

record team_member =
  tm_userId :: uuid
  tm_teamId :: uuid
  tm_role :: role

record channel_member =
  cm_userId :: uuid
  cm_channelId :: uuid

record message_reaction =
  mr_userId :: uuid
  mr_messageId :: uuid
  emoji :: string

text \<open>A table is the list of its rows in insertion order.\<close>

record db =
  users :: "user list"
  teams :: "team list"
  channels :: "channel list"
  messages :: "message list"
  team_members :: "team_member list"
  channel_members :: "channel_member list"
  message_reactions :: "message_reaction list"

section \<open>The storage operations the controllers call\<close>

text \<open>
  What a rejected promise carries into the \<^verbatim>\<open>catch\<close> block: a failed model validation,
  a violated primary key or unique index, a violated foreign key, a value the column type
  refuses, or the \<^verbatim>\<open>TypeError\<close> of reading a property of \<^verbatim>\<open>null\<close>.
\<close>

datatype exn =
    SequelizeValidationError
  | SequelizeUniqueConstraintError
  | SequelizeForeignKeyConstraintError
  | SequelizeDatabaseError
  | TypeError

text \<open>The \<^verbatim>\<open>len: [lo, hi]\<close> validator.\<close>

definition len_ok :: "nat \<Rightarrow> nat \<Rightarrow> string \<Rightarrow> bool" where
  "len_ok lo hi s = (lo \<le> length s \<and> length s \<le> hi)"

definition Team_findByPk :: "db \<Rightarrow> uuid \<Rightarrow> team option" where
  "Team_findByPk d tid = find (\<lambda>t. team_id t = tid) (teams d)"

definition Channel_findByPk :: "db \<Rightarrow> uuid \<Rightarrow> channel option" where
  "Channel_findByPk d cid = find (\<lambda>c. channel_id c = cid) (channels d)"

definition Message_findByPk :: "db \<Rightarrow> uuid \<Rightarrow> message option" where
  "Message_findByPk d mid = find (\<lambda>m. message_id m = mid) (messages d)"

text \<open>\<^verbatim>\<open>ChannelMember.findOne({ where: { channelId, userId } })\<close>\<close>

definition ChannelMember_findOne :: "db \<Rightarrow> uuid \<Rightarrow> uuid \<Rightarrow> channel_member option" where
  "ChannelMember_findOne d cid uid =
     find (\<lambda>r. cm_channelId r = cid \<and> cm_userId r = uid) (channel_members d)"

text \<open>\<^verbatim>\<open>TeamMember.findOne({ where: { userId, teamId } })\<close>\<close>

definition TeamMember_findOne :: "db \<Rightarrow> uuid \<Rightarrow> uuid \<Rightarrow> team_member option" where
  "TeamMember_findOne d uid tid =
     find (\<lambda>r. tm_userId r = uid \<and> tm_teamId r = tid) (team_members d)"

text \<open>\<^verbatim>\<open>TeamMember.findOne({ where: { userId, teamId, role: 'admin' } })\<close>\<close>

definition TeamMember_findOne_admin :: "db \<Rightarrow> uuid \<Rightarrow> uuid \<Rightarrow> team_member option" where
  "TeamMember_findOne_admin d uid tid =
     find (\<lambda>r. tm_userId r = uid \<and> tm_teamId r = tid \<and> tm_role r = Admin) (team_members d)"

text \<open>\<^verbatim>\<open>Message.findOne({ where: { id: messageId, senderId } })\<close>\<close>

definition Message_findOne_own :: "db \<Rightarrow> uuid \<Rightarrow> uuid \<Rightarrow> message option" where
  "Message_findOne_own d mid uid =
     find (\<lambda>m. message_id m = mid \<and> senderId m = uid) (messages d)"

text \<open>
  \<^verbatim>\<open>Message.create({ content, senderId, channelId, teamId })\<close>: the \<^verbatim>\<open>len: [1, 4000]\<close>
  validation of \<^verbatim>\<open>content\<close> runs first; the insert fails on a primary key already
  present; every other column takes its default.
\<close>

definition new_message :: "uuid \<Rightarrow> date \<Rightarrow> string \<Rightarrow> uuid \<Rightarrow> uuid \<Rightarrow> uuid \<Rightarrow> message" where
  "new_message mid now c sender cid tid =
     \<lparr> message_id = mid, content = c, senderId = sender, msg_channelId = cid,
       msg_teamId = tid, messageType = Text, fileUrl = None, editedAt = None,
       parentMessageId = None, createdAt = now \<rparr>"

definition Message_create ::
  "uuid \<Rightarrow> date \<Rightarrow> string \<Rightarrow> uuid \<Rightarrow> uuid \<Rightarrow> uuid \<Rightarrow> db \<Rightarrow> exn + (message \<times> db)" where
  "Message_create mid now c sender cid tid d =
     (if \<not> len_ok 1 4000 c then Inl SequelizeValidationError
      else if mid \<in> message_id ` set (messages d) then Inl SequelizeUniqueConstraintError
      else
        let m = new_message mid now c sender cid tid
        in Inr (m, d\<lparr> messages := messages d @ [m] \<rparr>))"

text \<open>
  \<^verbatim>\<open>message.update({ content, editedAt: new Date() })\<close> on a loaded instance: the new
  content is validated, then the row with the instance's primary key is rewritten.
\<close>

definition rewrite_message :: "message \<Rightarrow> string \<Rightarrow> date \<Rightarrow> db \<Rightarrow> db" where
  "rewrite_message inst c now d =
     d\<lparr> messages :=
          map (\<lambda>m. if message_id m = message_id inst
                   then m\<lparr> content := c, editedAt := Some now \<rparr> else m)
              (messages d) \<rparr>"

definition Message_update :: "message \<Rightarrow> string \<Rightarrow> date \<Rightarrow> db \<Rightarrow> exn + db" where
  "Message_update inst c now d =
     (if \<not> len_ok 1 4000 c then Inl SequelizeValidationError
      else Inr (rewrite_message inst c now d))"

text \<open>
  \<^verbatim>\<open>Message.destroy({ where: { id: messageId } })\<close>. Two columns reference a message
  with a foreign key that has no delete action: \<^verbatim>\<open>channels.lastMessageId\<close> and
  \<^verbatim>\<open>messages.parentMessageId\<close> (their \<^verbatim>\<open>belongsTo\<close> associations give none to a
  column not declared nullable). A message that such a column still points to cannot be
  deleted: the statement is rejected and nothing changes. Otherwise the row goes, and
  with it its reaction rows, whose foreign key the \<^verbatim>\<open>belongsToMany\<close> association
  declares with \<^verbatim>\<open>ON DELETE CASCADE\<close>.
\<close>

definition message_referenced :: "db \<Rightarrow> uuid \<Rightarrow> bool" where
  "message_referenced d mid =
     ((\<exists>c \<in> set (channels d). lastMessageId c = Some mid) \<or>
      (\<exists>m \<in> set (messages d). parentMessageId m = Some mid))"

definition without_message :: "uuid \<Rightarrow> db \<Rightarrow> db" where
  "without_message mid d =
     d\<lparr> messages := filter (\<lambda>m. message_id m \<noteq> mid) (messages d),
        message_reactions := filter (\<lambda>r. mr_messageId r \<noteq> mid) (message_reactions d) \<rparr>"

definition Message_destroy :: "uuid \<Rightarrow> db \<Rightarrow> exn + db" where
  "Message_destroy mid d =
     (if mid \<in> message_id ` set (messages d) \<and> message_referenced d mid
      then Inl SequelizeForeignKeyConstraintError
      else Inr (without_message mid d))"

text \<open>\<^verbatim>\<open>Channel.update({ lastMessageId }, { where: { id: channelId } })\<close>\<close>

definition Channel_update_lastMessage :: "uuid \<Rightarrow> uuid \<Rightarrow> db \<Rightarrow> db" where
  "Channel_update_lastMessage cid mid d =
     d\<lparr> channels :=
          map (\<lambda>c. if channel_id c = cid then c\<lparr> lastMessageId := Some mid \<rparr> else c)
              (channels d) \<rparr>"

section \<open>HTTP responses\<close>

text \<open>
  \<^verbatim>\<open>res.status(n).json(body)\<close>. The \<^verbatim>\<open>include\<close>d associations of a populated row are
  recomputable from the returned database and are not repeated in the body.
\<close>

datatype json_body =
    ErrorJson string
  | ErrorOf exn
  | InfoJson string
  | MessageJson string "message option"
  | ChannelJson string "channel option"
  | TeamJson string "team option"

datatype response = Response nat json_body

section \<open>The message controller\<close>

text \<open>\<^verbatim>\<open>sendMessage\<close> (HTTP \<^verbatim>\<open>POST /api/messages\<close>).\<close>

definition sendMessage ::
  "uuid \<Rightarrow> date \<Rightarrow> uuid \<Rightarrow> string \<Rightarrow> uuid \<Rightarrow> db \<Rightarrow> response \<times> db" where
  "sendMessage mid now userId c channelId d =
     (case ChannelMember_findOne d channelId userId of
        None \<Rightarrow> (Response 403 (ErrorJson ''Access denied''), d)
      | Some _ \<Rightarrow>
          (case Channel_findByPk d channelId of
             None \<Rightarrow> (Response 500 (ErrorOf TypeError), d)
           | Some ch \<Rightarrow>
               (case Message_create mid now c userId channelId (chan_teamId ch) d of
                  Inl e \<Rightarrow> (Response 500 (ErrorOf e), d)
                | Inr (m, d1) \<Rightarrow>
                    let d2 = Channel_update_lastMessage channelId (message_id m) d1
                    in (Response 201 (MessageJson ''Message sent successfully''
                                        (Message_findByPk d2 (message_id m))), d2))))"

text \<open>\<^verbatim>\<open>editMessage\<close> (HTTP \<^verbatim>\<open>PUT /api/messages/:messageId\<close>).\<close>

definition editMessage :: "date \<Rightarrow> uuid \<Rightarrow> uuid \<Rightarrow> string \<Rightarrow> db \<Rightarrow> response \<times> db" where
  "editMessage now userId messageId c d =
     (case Message_findOne_own d messageId userId of
        None \<Rightarrow> (Response 404 (ErrorJson ''Message not found''), d)
      | Some m \<Rightarrow>
          (case Message_update m c now d of
             Inl e \<Rightarrow> (Response 500 (ErrorOf e), d)
           | Inr d1 \<Rightarrow>
               (Response 200 (MessageJson ''Message updated successfully''
                                (Message_findByPk d1 (message_id m))), d1)))"

text \<open>\<^verbatim>\<open>deleteMessage\<close> (HTTP \<^verbatim>\<open>DELETE /api/messages/:messageId\<close>).\<close>

definition deleteMessage :: "uuid \<Rightarrow> uuid \<Rightarrow> db \<Rightarrow> response \<times> db" where
  "deleteMessage userId messageId d =
     (case Message_findOne_own d messageId userId of
        None \<Rightarrow> (Response 404 (ErrorJson ''Message not found''), d)
      | Some m \<Rightarrow>
          (case Message_destroy messageId d of
             Inl e \<Rightarrow> (Response 500 (ErrorOf e), d)
           | Inr d1 \<Rightarrow> (Response 200 (InfoJson ''Message deleted successfully''), d1)))"

text \<open>
  The reaction table: \<^verbatim>\<open>findOne\<close> and \<^verbatim>\<open>destroy\<close> on the triple
  \<^verbatim>\<open>{ userId, messageId, emoji }\<close>, and \<^verbatim>\<open>create\<close>. The table has two unique keys:
  the index on \<^verbatim>\<open>(user_id, message_id, emoji)\<close> that the model declares, and a key on
  \<^verbatim>\<open>(user_id, message_id)\<close> that the two \<^verbatim>\<open>belongsToMany\<close> associations through
  \<^verbatim>\<open>MessageReaction\<close> add to their through table. The second implies the first: an
  insert is rejected as soon as the user has any reaction row on the message. The column
  \<^verbatim>\<open>emoji\<close> is \<^verbatim>\<open>DataTypes.STRING\<close>, a \<^verbatim>\<open>VARCHAR(255)\<close>: the database refuses a
  longer value.
\<close>

definition same_reaction :: "uuid \<Rightarrow> uuid \<Rightarrow> string \<Rightarrow> message_reaction \<Rightarrow> bool" where
  "same_reaction uid mid e r = (mr_userId r = uid \<and> mr_messageId r = mid \<and> emoji r = e)"

definition MessageReaction_findOne ::
  "db \<Rightarrow> uuid \<Rightarrow> uuid \<Rightarrow> string \<Rightarrow> message_reaction option" where
  "MessageReaction_findOne d uid mid e = find (same_reaction uid mid e) (message_reactions d)"

definition MessageReaction_destroy :: "uuid \<Rightarrow> uuid \<Rightarrow> string \<Rightarrow> db \<Rightarrow> db" where
  "MessageReaction_destroy uid mid e d =
     d\<lparr> message_reactions := filter (\<lambda>r. \<not> same_reaction uid mid e r) (message_reactions d) \<rparr>"

definition reaction_of :: "uuid \<Rightarrow> uuid \<Rightarrow> message_reaction \<Rightarrow> bool" where
  "reaction_of uid mid r = (mr_userId r = uid \<and> mr_messageId r = mid)"

definition MessageReaction_create :: "uuid \<Rightarrow> uuid \<Rightarrow> string \<Rightarrow> db \<Rightarrow> exn + db" where
  "MessageReaction_create uid mid e d =
     (if 255 < length e then Inl SequelizeDatabaseError
      else if \<exists>r \<in> set (message_reactions d). reaction_of uid mid r
      then Inl SequelizeUniqueConstraintError
      else Inr (d\<lparr> message_reactions :=
                    message_reactions d @ [\<lparr> mr_userId = uid, mr_messageId = mid, emoji = e \<rparr>] \<rparr>))"

text \<open>\<^verbatim>\<open>addReaction\<close> (HTTP \<^verbatim>\<open>POST /api/messages/:messageId/reaction\<close>).\<close>

definition addReaction :: "uuid \<Rightarrow> uuid \<Rightarrow> string \<Rightarrow> db \<Rightarrow> response \<times> db" where
  "addReaction userId messageId e d =
     (case Message_findByPk d messageId of
        None \<Rightarrow> (Response 404 (ErrorJson ''Message not found''), d)
      | Some m \<Rightarrow>
          (case ChannelMember_findOne d (msg_channelId m) userId of
             None \<Rightarrow> (Response 403 (ErrorJson ''Access denied''), d)
           | Some _ \<Rightarrow>
               (case MessageReaction_findOne d userId messageId e of
                  Some _ \<Rightarrow>
                    let d1 = MessageReaction_destroy userId messageId e d
                    in (Response 200 (MessageJson ''Reaction updated successfully''
                                        (Message_findByPk d1 messageId)), d1)
                | None \<Rightarrow>
                    (case MessageReaction_create userId messageId e d of
                       Inl ex \<Rightarrow> (Response 500 (ErrorOf ex), d)
                     | Inr d1 \<Rightarrow>
                         (Response 200 (MessageJson ''Reaction updated successfully''
                                          (Message_findByPk d1 messageId)), d1)))))"


section \<open>Membership rows\<close>

text \<open>
  \<^verbatim>\<open>ChannelMember.create\<close>, \<^verbatim>\<open>bulkCreate\<close> (one multi-row insert, so all rows or none)
  and \<^verbatim>\<open>destroy\<close>; the unique index is on \<^verbatim>\<open>(user_id, channel_id)\<close>.
\<close>

definition cm_key :: "channel_member \<Rightarrow> uuid \<times> uuid" where
  "cm_key r = (cm_userId r, cm_channelId r)"

definition ChannelMember_bulkCreate :: "channel_member list \<Rightarrow> db \<Rightarrow> exn + db" where
  "ChannelMember_bulkCreate rows d =
     (if distinct (map cm_key rows) \<and>
         (\<forall>r \<in> set rows. cm_key r \<notin> cm_key ` set (channel_members d))
      then Inr (d\<lparr> channel_members := channel_members d @ rows \<rparr>)
      else Inl SequelizeUniqueConstraintError)"

definition ChannelMember_create :: "uuid \<Rightarrow> uuid \<Rightarrow> db \<Rightarrow> exn + db" where
  "ChannelMember_create uid cid d =
     (if (uid, cid) \<in> cm_key ` set (channel_members d)
      then Inl SequelizeUniqueConstraintError
      else Inr (d\<lparr> channel_members :=
                    channel_members d @ [\<lparr> cm_userId = uid, cm_channelId = cid \<rparr>] \<rparr>))"

definition ChannelMember_destroy :: "uuid \<Rightarrow> uuid \<Rightarrow> db \<Rightarrow> db" where
  "ChannelMember_destroy uid cid d =
     d\<lparr> channel_members :=
          filter (\<lambda>r. \<not> (cm_userId r = uid \<and> cm_channelId r = cid)) (channel_members d) \<rparr>"

text \<open>\<^verbatim>\<open>TeamMember.create\<close> and \<^verbatim>\<open>destroy\<close>; the unique index is on \<^verbatim>\<open>(user_id, team_id)\<close>.\<close>

definition TeamMember_create :: "uuid \<Rightarrow> uuid \<Rightarrow> role \<Rightarrow> db \<Rightarrow> exn + db" where
  "TeamMember_create uid tid r d =
     (if \<exists>x \<in> set (team_members d). tm_userId x = uid \<and> tm_teamId x = tid
      then Inl SequelizeUniqueConstraintError
      else Inr (d\<lparr> team_members :=
                    team_members d @ [\<lparr> tm_userId = uid, tm_teamId = tid, tm_role = r \<rparr>] \<rparr>))"

definition TeamMember_destroy :: "uuid \<Rightarrow> uuid \<Rightarrow> db \<Rightarrow> db" where
  "TeamMember_destroy uid tid d =
     d\<lparr> team_members :=
          filter (\<lambda>r. \<not> (tm_userId r = uid \<and> tm_teamId r = tid)) (team_members d) \<rparr>"

section \<open>The team controller\<close>

text \<open>
  The loop of \<^verbatim>\<open>joinTeam\<close> over the public channels: one \<^verbatim>\<open>ChannelMember.create\<close> per
  channel. There is no transaction: a rejected insert leaves the earlier ones in place.
\<close>

fun joinTeam_channels :: "uuid \<Rightarrow> channel list \<Rightarrow> db \<Rightarrow> exn option \<times> db" where
  "joinTeam_channels userId [] d = (None, d)"
| "joinTeam_channels userId (c # cs) d =
     (case ChannelMember_create userId (channel_id c) d of
        Inl ex \<Rightarrow> (Some ex, d)
      | Inr d1 \<Rightarrow> joinTeam_channels userId cs d1)"

text \<open>\<^verbatim>\<open>joinTeam\<close> (HTTP \<^verbatim>\<open>POST /api/teams/join\<close>).\<close>

definition joinTeam :: "uuid \<Rightarrow> string \<Rightarrow> db \<Rightarrow> response \<times> db" where
  "joinTeam userId code d =
     (case find (\<lambda>t. inviteCode t = Some code) (teams d) of
        None \<Rightarrow> (Response 404 (ErrorJson ''Invalid invite code''), d)
      | Some t \<Rightarrow>
          (case TeamMember_findOne d userId (team_id t) of
             Some _ \<Rightarrow> (Response 400 (ErrorJson ''Already a member of this team''), d)
           | None \<Rightarrow>
               (case TeamMember_create userId (team_id t) Member d of
                  Inl ex \<Rightarrow> (Response 500 (ErrorOf ex), d)
                | Inr d1 \<Rightarrow>
                    let publicChannels =
                          filter (\<lambda>c. chan_teamId c = team_id t \<and> \<not> isPrivate c) (channels d1)
                    in (case joinTeam_channels userId publicChannels d1 of
                          (Some ex, d2) \<Rightarrow> (Response 500 (ErrorOf ex), d2)
                        | (None, d2) \<Rightarrow>
                            (Response 200 (TeamJson ''Joined team successfully''
                                             (Team_findByPk d2 (team_id t))), d2)))))"

text \<open>The loop of \<^verbatim>\<open>leaveTeam\<close> over all channels of the team.\<close>

fun leaveTeam_channels :: "uuid \<Rightarrow> channel list \<Rightarrow> db \<Rightarrow> db" where
  "leaveTeam_channels userId [] d = d"
| "leaveTeam_channels userId (c # cs) d =
     leaveTeam_channels userId cs (ChannelMember_destroy userId (channel_id c) d)"

text \<open>\<^verbatim>\<open>leaveTeam\<close> (HTTP \<^verbatim>\<open>DELETE /api/teams/:teamId/leave\<close>).\<close>

definition leaveTeam :: "uuid \<Rightarrow> uuid \<Rightarrow> db \<Rightarrow> response \<times> db" where
  "leaveTeam userId teamId d =
     (case Team_findByPk d teamId of
        None \<Rightarrow> (Response 404 (ErrorJson ''Team not found''), d)
      | Some t \<Rightarrow>
          if ownerId t = userId then (Response 400 (ErrorJson ''Owner cannot leave team''), d)
          else
            let d1 = TeamMember_destroy userId teamId d;
                teamChannels = filter (\<lambda>c. chan_teamId c = teamId) (channels d1)
            in (Response 200 (InfoJson ''Left team successfully''),
                leaveTeam_channels userId teamChannels d1))"

section \<open>The channel controller\<close>

text \<open>
  \<^verbatim>\<open>Channel.create\<close>: \<^verbatim>\<open>name\<close> must pass \<^verbatim>\<open>len: [1, 50]\<close>, a given description
  \<^verbatim>\<open>len: [0, 200]\<close>; the \<^verbatim>\<open>beforeSave\<close> hook then prefixes the name with \<^verbatim>\<open>#\<close> unless
  it starts with one; the insert fails on a primary key already present.
\<close>

definition hash_name :: "string \<Rightarrow> string" where
  "hash_name n = (case n of [] \<Rightarrow> CHR ''#'' # n
                  | c # _ \<Rightarrow> if c = CHR ''#'' then n else CHR ''#'' # n)"

definition description_ok :: "string option \<Rightarrow> bool" where
  "description_ok descr = (case descr of None \<Rightarrow> True | Some s \<Rightarrow> len_ok 0 200 s)"

definition new_channel ::
  "uuid \<Rightarrow> string \<Rightarrow> string option \<Rightarrow> uuid \<Rightarrow> uuid \<Rightarrow> bool \<Rightarrow> channel" where
  "new_channel cid n descr tid creator priv =
     \<lparr> channel_id = cid, channel_name = hash_name n, channel_description = descr,
       chan_teamId = tid, createdById = creator, isPrivate = priv, lastMessageId = None \<rparr>"

definition Channel_create ::
  "uuid \<Rightarrow> string \<Rightarrow> string option \<Rightarrow> uuid \<Rightarrow> uuid \<Rightarrow> bool \<Rightarrow> db \<Rightarrow> exn + (channel \<times> db)" where
  "Channel_create cid n descr tid creator priv d =
     (if \<not> len_ok 1 50 n \<or> \<not> description_ok descr then Inl SequelizeValidationError
      else if cid \<in> channel_id ` set (channels d) then Inl SequelizeUniqueConstraintError
      else
        let c = new_channel cid n descr tid creator priv
        in Inr (c, d\<lparr> channels := channels d @ [c] \<rparr>))"

text \<open>
  The request field \<^verbatim>\<open>isPrivate\<close> may be absent (\<open>None\<close>); the code tests its
  truthiness twice, as \<^verbatim>\<open>isPrivate || false\<close> and as \<^verbatim>\<open>!isPrivate\<close>.
\<close>

definition truthy :: "bool option \<Rightarrow> bool" where
  "truthy b = (case b of None \<Rightarrow> False | Some v \<Rightarrow> v)"

text \<open>\<^verbatim>\<open>createChannel\<close> (HTTP \<^verbatim>\<open>POST /api/channels\<close>).\<close>

definition createChannel ::
  "uuid \<Rightarrow> uuid \<Rightarrow> string \<Rightarrow> string option \<Rightarrow> uuid \<Rightarrow> bool option \<Rightarrow> db \<Rightarrow> response \<times> db" where
  "createChannel cid userId n descr teamId priv d =
     (case Team_findByPk d teamId of
        None \<Rightarrow> (Response 404 (ErrorJson ''Team not found''), d)
      | Some t \<Rightarrow>
          if ownerId t \<noteq> userId \<and> TeamMember_findOne_admin d userId teamId = None
          then (Response 403 (ErrorJson ''Permission denied''), d)
          else
            (case Channel_create cid n descr teamId userId (truthy priv) d of
               Inl ex \<Rightarrow> (Response 500 (ErrorOf ex), d)
             | Inr (ch, d1) \<Rightarrow>
                 (case ChannelMember_create userId (channel_id ch) d1 of
                    Inl ex \<Rightarrow> (Response 500 (ErrorOf ex), d1)
                  | Inr d2 \<Rightarrow>
                      if \<not> truthy priv then
                        let teamMembers = filter (\<lambda>r. tm_teamId r = teamId) (team_members d2);
                            channelMembers =
                              map (\<lambda>r. \<lparr> cm_userId = tm_userId r, cm_channelId = channel_id ch \<rparr>)
                                  teamMembers;
                            filteredMembers = filter (\<lambda>r. cm_userId r \<noteq> userId) channelMembers
                        in (case ChannelMember_bulkCreate filteredMembers d2 of
                              Inl ex \<Rightarrow> (Response 500 (ErrorOf ex), d2)
                            | Inr d3 \<Rightarrow>
                                (Response 201 (ChannelJson ''Channel created successfully''
                                                 (Channel_findByPk d3 (channel_id ch))), d3))
                      else
                        (Response 201 (ChannelJson ''Channel created successfully''
                                         (Channel_findByPk d2 (channel_id ch))), d2))))"

text \<open>\<^verbatim>\<open>joinChannel\<close> (HTTP \<^verbatim>\<open>POST /api/channels/:channelId/join\<close>).\<close>

definition joinChannel :: "uuid \<Rightarrow> uuid \<Rightarrow> db \<Rightarrow> response \<times> db" where
  "joinChannel userId channelId d =
     (case Channel_findByPk d channelId of
        None \<Rightarrow> (Response 404 (ErrorJson ''Channel not found''), d)
      | Some ch \<Rightarrow>
          (case TeamMember_findOne d userId (chan_teamId ch) of
             None \<Rightarrow> (Response 403 (ErrorJson ''Access denied''), d)
           | Some _ \<Rightarrow>
               (case ChannelMember_findOne d channelId userId of
                  Some _ \<Rightarrow> (Response 400 (ErrorJson ''Already a member of this channel''), d)
                | None \<Rightarrow>
                    (case ChannelMember_create userId channelId d of
                       Inl ex \<Rightarrow> (Response 500 (ErrorOf ex), d)
                     | Inr d1 \<Rightarrow> (Response 200 (InfoJson ''Joined channel successfully''), d1)))))"

text \<open>\<^verbatim>\<open>leaveChannel\<close> (HTTP \<^verbatim>\<open>DELETE /api/channels/:channelId/leave\<close>).\<close>

definition leaveChannel :: "uuid \<Rightarrow> uuid \<Rightarrow> db \<Rightarrow> response \<times> db" where
  "leaveChannel userId channelId d =
     (case Channel_findByPk d channelId of
        None \<Rightarrow> (Response 404 (ErrorJson ''Channel not found''), d)
      | Some ch \<Rightarrow>
          (Response 200 (InfoJson ''Left channel successfully''),
           ChannelMember_destroy userId channelId d))"

section \<open>The socket server\<close>

text \<open>
  A connection that passed \<^verbatim>\<open>authenticateSocket\<close> carries the id of the user it loaded.
  Rooms are named \<^verbatim>\<open>team-<id>\<close> and \<^verbatim>\<open>channel-<id>\<close> in the source.
\<close>

record socket =
  sock_id :: nat
  sock_userId :: uuid

datatype room = Team_room uuid | Channel_room uuid

text \<open>What a client receives: the event name with its payload.\<close>

datatype event =
    Error_event string
  | New_message "message option"
  | Message_edited "message option"
  | Message_deleted uuid

text \<open>
  The server: the database, the open connections, the room subscriptions of the
  connections (kept by the socket library), and per connection the events delivered to it
  so far, oldest first.
\<close>

record server =
  sdb :: db
  sockets :: "socket list"
  rooms :: "(nat \<times> room) set"
  inbox :: "nat \<Rightarrow> event list"

text \<open>\<^verbatim>\<open>socket.emit(ev)\<close> and \<^verbatim>\<open>io.to(room).emit(ev)\<close>.\<close>

definition socket_emit :: "socket \<Rightarrow> event \<Rightarrow> server \<Rightarrow> server" where
  "socket_emit sock ev s = s\<lparr> inbox := (inbox s)(sock_id sock := inbox s (sock_id sock) @ [ev]) \<rparr>"

definition io_to_emit :: "room \<Rightarrow> event \<Rightarrow> server \<Rightarrow> server" where
  "io_to_emit r ev s =
     s\<lparr> inbox := (\<lambda>i. if (i, r) \<in> rooms s then inbox s i @ [ev] else inbox s i) \<rparr>"

text \<open>
  \<^verbatim>\<open>User.update({ isOnline: true }, { where: { id } })\<close> and its offline counterpart.
  The handlers issue these two writes without awaiting them; the model applies each write
  when it is issued.
\<close>

definition User_update_online :: "uuid \<Rightarrow> db \<Rightarrow> db" where
  "User_update_online uid d =
     d\<lparr> users := map (\<lambda>u. if user_id u = uid then u\<lparr> isOnline := True \<rparr> else u) (users d) \<rparr>"

definition User_update_offline :: "uuid \<Rightarrow> date \<Rightarrow> db \<Rightarrow> db" where
  "User_update_offline uid now d =
     d\<lparr> users := map (\<lambda>u. if user_id u = uid
                           then u\<lparr> isOnline := False, lastSeen := Some now \<rparr> else u)
                     (users d) \<rparr>"

text \<open>\<^verbatim>\<open>io.on('connection')\<close>: the body run when a connection opens.\<close>

definition on_connection :: "socket \<Rightarrow> server \<Rightarrow> server" where
  "on_connection sock s =
     s\<lparr> sockets := sockets s @ [sock], sdb := User_update_online (sock_userId sock) (sdb s) \<rparr>"

text \<open>
  \<^verbatim>\<open>socket.on('disconnect')\<close>: the socket library has dropped the connection and its room
  subscriptions; the handler then writes the user row.
\<close>

definition on_disconnect :: "socket \<Rightarrow> date \<Rightarrow> server \<Rightarrow> server" where
  "on_disconnect sock now s =
     s\<lparr> sockets := filter (\<lambda>x. sock_id x \<noteq> sock_id sock) (sockets s),
        rooms := {(i, r). (i, r) \<in> rooms s \<and> i \<noteq> sock_id sock},
        sdb := User_update_offline (sock_userId sock) now (sdb s) \<rparr>"

text \<open>\<^verbatim>\<open>socket.on('join-teams')\<close>, \<^verbatim>\<open>'join-channel'\<close> and \<^verbatim>\<open>'leave-channel'\<close>.\<close>

definition on_join_teams :: "socket \<Rightarrow> uuid list \<Rightarrow> server \<Rightarrow> server" where
  "on_join_teams sock teamIds s =
     s\<lparr> rooms := rooms s \<union> (\<lambda>t. (sock_id sock, Team_room t)) ` set teamIds \<rparr>"

definition on_join_channel :: "socket \<Rightarrow> uuid \<Rightarrow> server \<Rightarrow> server" where
  "on_join_channel sock channelId s =
     (case ChannelMember_findOne (sdb s) channelId (sock_userId sock) of
        Some _ \<Rightarrow> s\<lparr> rooms := insert (sock_id sock, Channel_room channelId) (rooms s) \<rparr>
      | None \<Rightarrow> s)"

definition on_leave_channel :: "socket \<Rightarrow> uuid \<Rightarrow> server \<Rightarrow> server" where
  "on_leave_channel sock channelId s =
     s\<lparr> rooms := rooms s - {(sock_id sock, Channel_room channelId)} \<rparr>"

text \<open>\<^verbatim>\<open>socket.on('send-message')\<close>, run from its first line to its last without another
  handler in between.\<close>

definition on_send_message ::
  "socket \<Rightarrow> uuid \<Rightarrow> date \<Rightarrow> string \<Rightarrow> uuid \<Rightarrow> server \<Rightarrow> server" where
  "on_send_message sock mid now c channelId s =
     (case ChannelMember_findOne (sdb s) channelId (sock_userId sock) of
        None \<Rightarrow> socket_emit sock (Error_event ''Access denied'') s
      | Some _ \<Rightarrow>
          (case Channel_findByPk (sdb s) channelId of
             None \<Rightarrow> socket_emit sock (Error_event ''Failed to send message'') s
           | Some ch \<Rightarrow>
               (case Message_create mid now c (sock_userId sock) channelId (chan_teamId ch) (sdb s) of
                  Inl ex \<Rightarrow> socket_emit sock (Error_event ''Failed to send message'') s
                | Inr (m, d1) \<Rightarrow>
                    let d2 = Channel_update_lastMessage channelId (message_id m) d1
                    in io_to_emit (Channel_room channelId)
                         (New_message (Message_findByPk d2 (message_id m)))
                         (s\<lparr> sdb := d2 \<rparr>))))"

text \<open>\<^verbatim>\<open>socket.on('edit-message')\<close>\<close>

definition on_edit_message :: "socket \<Rightarrow> date \<Rightarrow> uuid \<Rightarrow> string \<Rightarrow> server \<Rightarrow> server" where
  "on_edit_message sock now messageId c s =
     (case Message_findOne_own (sdb s) messageId (sock_userId sock) of
        None \<Rightarrow> socket_emit sock (Error_event ''Message not found'') s
      | Some m \<Rightarrow>
          (case Message_update m c now (sdb s) of
             Inl ex \<Rightarrow> socket_emit sock (Error_event ''Failed to edit message'') s
           | Inr d1 \<Rightarrow>
               io_to_emit (Channel_room (msg_channelId m))
                 (Message_edited (Message_findByPk d1 (message_id m)))
                 (s\<lparr> sdb := d1 \<rparr>)))"

text \<open>\<^verbatim>\<open>socket.on('delete-message')\<close>\<close>

definition on_delete_message :: "socket \<Rightarrow> uuid \<Rightarrow> server \<Rightarrow> server" where
  "on_delete_message sock messageId s =
     (case Message_findOne_own (sdb s) messageId (sock_userId sock) of
        None \<Rightarrow> socket_emit sock (Error_event ''Message not found'') s
      | Some m \<Rightarrow>
          (case Message_destroy messageId (sdb s) of
             Inl ex \<Rightarrow> socket_emit sock (Error_event ''Failed to delete message'') s
           | Inr d1 \<Rightarrow>
               io_to_emit (Channel_room (msg_channelId m)) (Message_deleted messageId)
                 (s\<lparr> sdb := d1 \<rparr>)))"

section \<open>Send-message handlers suspended at their awaits\<close>

text \<open>
  The \<^verbatim>\<open>send-message\<close> handler is an \<^verbatim>\<open>async\<close> function with five awaited storage
  calls and no lock around them: it runs up to an \<^verbatim>\<open>await\<close>, and is resumed when that
  call has answered, while the handlers of other connections run in between. A pending
  handler is its arguments, the await it is suspended at, and the locals bound so far.
  One step lets the awaited call act on the database and runs the handler up to its next
  await (or to its end).
\<close>

datatype send_pc =
    At_findOne
  | At_findByPk
  | At_create uuid
  | At_update message
  | At_populate message
  | Finished

record send_job =
  job_sock :: socket
  job_uuid :: uuid
  job_now :: date
  job_content :: string
  job_channelId :: uuid
  job_pc :: send_pc

definition send_step :: "send_job \<Rightarrow> server \<Rightarrow> send_job \<times> server" where
  "send_step j s =
     (case job_pc j of
        At_findOne \<Rightarrow>
          (case ChannelMember_findOne (sdb s) (job_channelId j) (sock_userId (job_sock j)) of
             None \<Rightarrow> (j\<lparr> job_pc := Finished \<rparr>,
                      socket_emit (job_sock j) (Error_event ''Access denied'') s)
           | Some _ \<Rightarrow> (j\<lparr> job_pc := At_findByPk \<rparr>, s))
      | At_findByPk \<Rightarrow>
          (case Channel_findByPk (sdb s) (job_channelId j) of
             None \<Rightarrow> (j\<lparr> job_pc := Finished \<rparr>,
                      socket_emit (job_sock j) (Error_event ''Failed to send message'') s)
           | Some ch \<Rightarrow> (j\<lparr> job_pc := At_create (chan_teamId ch) \<rparr>, s))
      | At_create tid \<Rightarrow>
          (case Message_create (job_uuid j) (job_now j) (job_content j)
                  (sock_userId (job_sock j)) (job_channelId j) tid (sdb s) of
             Inl ex \<Rightarrow> (j\<lparr> job_pc := Finished \<rparr>,
                        socket_emit (job_sock j) (Error_event ''Failed to send message'') s)
           | Inr (m, d1) \<Rightarrow> (j\<lparr> job_pc := At_update m \<rparr>, s\<lparr> sdb := d1 \<rparr>))
      | At_update m \<Rightarrow>
          (j\<lparr> job_pc := At_populate m \<rparr>,
           s\<lparr> sdb := Channel_update_lastMessage (job_channelId j) (message_id m) (sdb s) \<rparr>)
      | At_populate m \<Rightarrow>
          (j\<lparr> job_pc := Finished \<rparr>,
           io_to_emit (Channel_room (job_channelId j))
             (New_message (Message_findByPk (sdb s) (message_id m))) s)
      | Finished \<Rightarrow> (j, s))"

text \<open>A handler resumed \<open>n\<close> times in a row.\<close>

fun send_steps :: "nat \<Rightarrow> send_job \<Rightarrow> server \<Rightarrow> send_job \<times> server" where
  "send_steps 0 j s = (j, s)"
| "send_steps (Suc n) j s = (case send_step j s of (j1, s1) \<Rightarrow> send_steps n j1 s1)"

text \<open>
  Several pending handlers, resumed in the order in which their storage calls answer:
  the schedule names, step by step, the handler that is resumed next.
\<close>

fun interleave :: "nat list \<Rightarrow> send_job list \<Rightarrow> server \<Rightarrow> send_job list \<times> server" where
  "interleave [] js s = (js, s)"
| "interleave (i # sched) js s =
     (if i < length js
      then (case send_step (js ! i) s of (j1, s1) \<Rightarrow> interleave sched (js[i := j1]) s1)
      else interleave sched js s)"

text \<open>The same requests handled one after the other, each handler run to its end.\<close>

fun send_all :: "send_job list \<Rightarrow> server \<Rightarrow> server" where
  "send_all [] s = s"
| "send_all (j # js) s =
     send_all js
       (on_send_message (job_sock j) (job_uuid j) (job_now j) (job_content j) (job_channelId j) s)"

text \<open>
  The HTTP controller \<^verbatim>\<open>sendMessage\<close> on the database of the running server. The
  controller module has no handle on the socket server: it changes the database and
  answers its caller, and nothing else.
\<close>

definition http_sendMessage ::
  "uuid \<Rightarrow> date \<Rightarrow> uuid \<Rightarrow> string \<Rightarrow> uuid \<Rightarrow> server \<Rightarrow> response \<times> server" where
  "http_sendMessage mid now userId c channelId s =
     (case sendMessage mid now userId c channelId (sdb s) of (r, d) \<Rightarrow> (r, s\<lparr> sdb := d \<rparr>))"

text \<open>
  What a subscriber observes of the posts: the ids of the messages in the
  \<^verbatim>\<open>new-message\<close> events it received, in the order of receipt. The commit order is the
  order of the rows of the message table.
\<close>

fun new_message_ids :: "event list \<Rightarrow> uuid list" where
  "new_message_ids [] = []"
| "new_message_ids (New_message (Some m) # evs) = message_id m # new_message_ids evs"
| "new_message_ids (ev # evs) = new_message_ids evs"

definition commit_order :: "server \<Rightarrow> uuid list" where
  "commit_order s = map message_id (messages (sdb s))"

section \<open>Integrity constraints of the schema\<close>

text \<open>
  The primary keys of the channel and message tables; the unique index of \<^verbatim>\<open>team_members\<close> on
  \<^verbatim>\<open>(user_id, team_id)\<close>; the foreign key of \<^verbatim>\<open>channel_members.channelId\<close> into the
  channel table.
\<close>

definition pk_channels :: "db \<Rightarrow> bool" where
  "pk_channels d = distinct (map channel_id (channels d))"

definition pk_messages :: "db \<Rightarrow> bool" where
  "pk_messages d = distinct (map message_id (messages d))"

definition unique_team_members :: "db \<Rightarrow> bool" where
  "unique_team_members d = distinct (map (\<lambda>r. (tm_userId r, tm_teamId r)) (team_members d))"

definition fk_channel_members :: "db \<Rightarrow> bool" where
  "fk_channel_members d =
     (\<forall>r \<in> set (channel_members d). cm_channelId r \<in> channel_id ` set (channels d))"

text \<open>The user ids of the membership rows of a channel and of a team.\<close>

definition members_of_channel :: "db \<Rightarrow> uuid \<Rightarrow> uuid list" where
  "members_of_channel d cid = map cm_userId (filter (\<lambda>r. cm_channelId r = cid) (channel_members d))"

definition members_of_team :: "db \<Rightarrow> uuid \<Rightarrow> uuid list" where
  "members_of_team d tid = map tm_userId (filter (\<lambda>r. tm_teamId r = tid) (team_members d))"

text \<open>The ids of the channels of a team.\<close>

definition channel_ids_of_team :: "db \<Rightarrow> uuid \<Rightarrow> uuid list" where
  "channel_ids_of_team d tid = map channel_id (filter (\<lambda>c. chan_teamId c = tid) (channels d))"

text \<open>The channels of a team that are not private.\<close>

definition public_channels_of_team :: "db \<Rightarrow> uuid \<Rightarrow> channel list" where
  "public_channels_of_team d tid =
     filter (\<lambda>c. chan_teamId c = tid \<and> \<not> isPrivate c) (channels d)"

text \<open>
  Content that the spec calls blank: not empty, and whitespace only. The source has no
  such test; the predicate serves to state what the code does with such content.
\<close>

definition whitespace_only :: "string \<Rightarrow> bool" where
  "whitespace_only s =
     (s \<noteq> [] \<and> list_all (\<lambda>c. c = CHR '' '' \<or> c = CHR 0x09 \<or> c = CHR 0x0A \<or> c = CHR 0x0D) s)"

text \<open>\<^verbatim>\<open>User.findByPk\<close>, as the authentication middleware and the team views read a user.\<close>

definition User_findByPk :: "db \<Rightarrow> uuid \<Rightarrow> user option" where
  "User_findByPk d uid = find (\<lambda>u. user_id u = uid) (users d)"

section \<open>A concrete database and server\<close>

text \<open>
  A small database in the shape the seed script \<^verbatim>\<open>init-db.js\<close> produces: the users demo
  (1), alice (2) and bob (3) in one team (50) owned by demo, a public channel (10) with
  all three as members; in addition a private channel (12) with demo alone, a user dave
  (4) outside the team, and one message (100) of alice in the public channel.
\<close>

definition seed_message :: message where
  "seed_message =
     \<lparr> message_id = 100, content = ''hi'', senderId = 2, msg_channelId = 10, msg_teamId = 50,
       messageType = Text, fileUrl = None, editedAt = None, parentMessageId = None,
       createdAt = 1 \<rparr>"

definition seed_team :: team where
  "seed_team = \<lparr> team_id = 50, team_name = ''Demo Team'', team_description = None,
                 ownerId = 1, inviteCode = Some ''invite'' \<rparr>"

definition seed_db :: db where
  "seed_db =
     \<lparr> users =
         [\<lparr> user_id = 1, username = ''demo'', isOnline = False, lastSeen = None \<rparr>,
          \<lparr> user_id = 2, username = ''alice'', isOnline = False, lastSeen = None \<rparr>,
          \<lparr> user_id = 3, username = ''bob'', isOnline = False, lastSeen = None \<rparr>,
          \<lparr> user_id = 4, username = ''dave'', isOnline = False, lastSeen = None \<rparr>],
       teams = [seed_team],
       channels =
         [\<lparr> channel_id = 10, channel_name = ''#general'', channel_description = None,
            chan_teamId = 50, createdById = 1, isPrivate = False, lastMessageId = Some 100 \<rparr>,
          \<lparr> channel_id = 12, channel_name = ''#secret'', channel_description = None,
            chan_teamId = 50, createdById = 1, isPrivate = True, lastMessageId = None \<rparr>],
       messages = [seed_message],
       team_members =
         [\<lparr> tm_userId = 1, tm_teamId = 50, tm_role = Admin \<rparr>,
          \<lparr> tm_userId = 2, tm_teamId = 50, tm_role = Member \<rparr>,
          \<lparr> tm_userId = 3, tm_teamId = 50, tm_role = Member \<rparr>],
       channel_members =
         [\<lparr> cm_userId = 1, cm_channelId = 10 \<rparr>,
          \<lparr> cm_userId = 2, cm_channelId = 10 \<rparr>,
          \<lparr> cm_userId = 3, cm_channelId = 10 \<rparr>,
          \<lparr> cm_userId = 1, cm_channelId = 12 \<rparr>],
       message_reactions = [] \<rparr>"

text \<open>
  A server on that database with two open connections of alice (7 and 8) and one of bob
  (9), all three subscribed to the room of the public channel. The presence columns,
  which no handler reads, are left at their defaults.
\<close>

definition alice_sock :: socket where
  "alice_sock = \<lparr> sock_id = 7, sock_userId = 2 \<rparr>"

definition alice_sock2 :: socket where
  "alice_sock2 = \<lparr> sock_id = 8, sock_userId = 2 \<rparr>"

definition bob_sock :: socket where
  "bob_sock = \<lparr> sock_id = 9, sock_userId = 3 \<rparr>"

definition seed_server :: server where
  "seed_server =
     \<lparr> sdb = seed_db,
       sockets = [alice_sock, alice_sock2, bob_sock],
       rooms = {(7, Channel_room 10), (8, Channel_room 10), (9, Channel_room 10)},
       inbox = (\<lambda>_. []) \<rparr>"

text \<open>The same server before anybody has connected.\<close>

definition idle_server :: server where
  "idle_server = \<lparr> sdb = seed_db, sockets = [], rooms = {}, inbox = (\<lambda>_. []) \<rparr>"

text \<open>
  Alice opens her two connections and then closes the first one at time 9.
\<close>

definition alice_twice :: server where
  "alice_twice = on_connection alice_sock2 (on_connection alice_sock idle_server)"

definition alice_closed_one :: server where
  "alice_closed_one = on_disconnect alice_sock 9 alice_twice"

text \<open>
  The seed server after alice has posted a second message (101, from then on the last
  message of the public channel) and has then left the channel through \<^verbatim>\<open>leaveChannel\<close>;
  her connections are still subscribed to the channel's room.
\<close>

definition alice_left :: server where
  "alice_left =
     seed_server\<lparr> sdb := snd (leaveChannel 2 10 (snd (sendMessage 101 5 2 ''bye'' 10 seed_db))) \<rparr>"



text \<open>
  Two posts to the public channel, one on a connection of alice and one on bob's, both
  handlers still before their first await.
\<close>

definition alice_post :: send_job where
  "alice_post = \<lparr> job_sock = alice_sock, job_uuid = 101, job_now = 5, job_content = ''first'',
                  job_channelId = 10, job_pc = At_findOne \<rparr>"

definition bob_post :: send_job where
  "bob_post = \<lparr> job_sock = bob_sock, job_uuid = 102, job_now = 6, job_content = ''second'',
                job_channelId = 10, job_pc = At_findOne \<rparr>"

text \<open>
  A schedule for the two: alice's handler runs through its insert, then bob's handler
  runs from start to end, then alice's handler continues.
\<close>

definition overtaking :: "nat list" where
  "overtaking = [0, 0, 0, 1, 1, 1, 1, 1, 0, 0]"

section \<open>Facts about table lookups\<close>

lemma find_app:
  "find P (xs @ ys) = (case find P xs of None \<Rightarrow> find P ys | Some x \<Rightarrow> Some x)"
  by (induction xs) simp_all

lemma find_app_miss: "find P xs = None \<Longrightarrow> find P (xs @ ys) = find P ys"
  by (simp add: find_app)

lemma find_app_hit: "find P xs = Some x \<Longrightarrow> find P (xs @ ys) = Some x"
  by (simp add: find_app)

lemma find_map_same:
  assumes "\<And>x. P (f x) = P x"
  shows "find P (map f xs) = map_option f (find P xs)"
  using assms by (induction xs) simp_all

lemma find_sat: "find P xs = Some x \<Longrightarrow> P x"
  by (induction xs) (auto split: if_splits)

section \<open>Editing and deleting another user's message\<close>

lemma Message_findOne_own_other:
  assumes pk: "pk_messages d"
      and m: "m \<in> set (messages d)" and a: "senderId m = a" and ba: "b \<noteq> a"
  shows "Message_findOne_own d (message_id m) b = None"
proof -
  have "\<not> (message_id x = message_id m \<and> senderId x = b)" if x: "x \<in> set (messages d)" for x
  proof
    assume h: "message_id x = message_id m \<and> senderId x = b"
    from pk have "inj_on message_id (set (messages d))"
      by (simp add: pk_messages_def distinct_map)
    with x m h have "x = m" by (auto dest: inj_onD)
    with h a ba show False by simp
  qed
  then show ?thesis by (auto simp: Message_findOne_own_def find_None_iff)
qed

lemma Message_findOne_own_absent:
  "mid \<notin> message_id ` set (messages d) \<Longrightarrow> Message_findOne_own d mid b = None"
  by (auto simp: Message_findOne_own_def find_None_iff)

text \<open>
  Claim C4. A message \<open>m\<close> authored by user \<open>a\<close> is in the message table (whose primary
  key is unique) and \<open>b\<close> is another user. Then \<^verbatim>\<open>editMessage\<close> and \<^verbatim>\<open>deleteMessage\<close>
  called by \<open>b\<close> answer 404 "Message not found" and return the database as it was, so the
  message, its content and its edited-at are untouched; the socket handlers
  \<^verbatim>\<open>edit-message\<close> and \<^verbatim>\<open>delete-message\<close> on a connection of \<open>b\<close> only emit the error
  "Message not found" to that connection and leave the database as it was; and in all
  four cases the outcome is the very same as for an id \<open>mid'\<close> that no message has.
\<close>

theorem edit_delete_by_other_user_not_found:
  assumes pk: "pk_messages d"
      and m: "m \<in> set (messages d)" and a: "senderId m = a" and ba: "b \<noteq> a"
      and sock: "sock_userId sock = b" and s: "sdb s = d"
      and absent: "mid' \<notin> message_id ` set (messages d)"
  shows "editMessage now b (message_id m) c d = (Response 404 (ErrorJson ''Message not found''), d)
       \<and> deleteMessage b (message_id m) d = (Response 404 (ErrorJson ''Message not found''), d)
       \<and> on_edit_message sock now (message_id m) c s
           = socket_emit sock (Error_event ''Message not found'') s
       \<and> on_delete_message sock (message_id m) s
           = socket_emit sock (Error_event ''Message not found'') s
       \<and> sdb (socket_emit sock (Error_event ''Message not found'') s) = d
       \<and> editMessage now b mid' c d = editMessage now b (message_id m) c d
       \<and> deleteMessage b mid' d = deleteMessage b (message_id m) d
       \<and> on_edit_message sock now mid' c s = on_edit_message sock now (message_id m) c s
       \<and> on_delete_message sock mid' s = on_delete_message sock (message_id m) s"
proof -
  have n1: "Message_findOne_own d (message_id m) b = None"
    using pk m a ba by (rule Message_findOne_own_other)
  have n2: "Message_findOne_own d mid' b = None"
    using absent by (rule Message_findOne_own_absent)
  show ?thesis
    using n1 n2 sock s
    by (simp add: editMessage_def deleteMessage_def on_edit_message_def on_delete_message_def
        socket_emit_def)
qed

theorem edit_delete_by_other_user_not_found_witness:
  "pk_messages seed_db \<and> seed_message \<in> set (messages seed_db) \<and> senderId seed_message = 2
   \<and> (3::nat) \<noteq> 2 \<and> sock_userId bob_sock = 3 \<and> sdb seed_server = seed_db
   \<and> 999 \<notin> message_id ` set (messages seed_db)
   \<and> editMessage 5 3 100 ''hacked'' seed_db
        = (Response 404 (ErrorJson ''Message not found''), seed_db)
   \<and> deleteMessage 3 100 seed_db = (Response 404 (ErrorJson ''Message not found''), seed_db)
   \<and> on_edit_message bob_sock 5 100 ''hacked'' seed_server
        = socket_emit bob_sock (Error_event ''Message not found'') seed_server
   \<and> on_delete_message bob_sock 100 seed_server
        = socket_emit bob_sock (Error_event ''Message not found'') seed_server
   \<and> editMessage 5 3 999 ''hacked'' seed_db = editMessage 5 3 100 ''hacked'' seed_db"
proof -
  have h1: "pk_messages seed_db" by (simp add: pk_messages_def seed_db_def)
  have h2: "seed_message \<in> set (messages seed_db)" by (simp add: seed_db_def)
  have h3: "senderId seed_message = 2" by (simp add: seed_message_def)
  have h4: "(3::nat) \<noteq> 2" by simp
  have h5: "sock_userId bob_sock = 3" by (simp add: bob_sock_def)
  have h6: "sdb seed_server = seed_db" by (simp add: seed_server_def)
  have h7: "999 \<notin> message_id ` set (messages seed_db)"
    by (simp add: seed_db_def seed_message_def)
  have id: "message_id seed_message = 100" by (simp add: seed_message_def)
  show ?thesis
    using edit_delete_by_other_user_not_found [OF h1 h2 h3 h4 h5 h6 h7, of 5 "''hacked''"]
      h1 h2 h3 h5 h6 h7
    by (simp add: id)
qed

section \<open>Leaving a team\<close>

lemma leaveTeam_channels_eq:
  "leaveTeam_channels u cs d =
     d\<lparr> channel_members :=
          filter (\<lambda>r. \<not> (cm_userId r = u \<and> cm_channelId r \<in> channel_id ` set cs))
                 (channel_members d) \<rparr>"
proof (induction cs arbitrary: d)
  case Nil
  show ?case by simp
next
  case (Cons c cs)
  have "filter (\<lambda>r. \<not> (cm_userId r = u \<and> cm_channelId r \<in> channel_id ` set cs))
          (filter (\<lambda>r. \<not> (cm_userId r = u \<and> cm_channelId r = channel_id c)) (channel_members d))
        = filter (\<lambda>r. \<not> (cm_userId r = u \<and> cm_channelId r \<in> channel_id ` set (c # cs)))
            (channel_members d)"
    by (auto intro: filter_cong)
  then show ?case
    by (simp add: Cons.IH ChannelMember_destroy_def)
qed

lemma leaveTeam_non_owner:
  assumes team: "Team_findByPk d tid = Some t" and no: "ownerId t \<noteq> u"
  shows "leaveTeam u tid d =
           (Response 200 (InfoJson ''Left team successfully''),
            d\<lparr> team_members :=
                 filter (\<lambda>r. \<not> (tm_userId r = u \<and> tm_teamId r = tid)) (team_members d),
               channel_members :=
                 filter (\<lambda>r. \<not> (cm_userId r = u \<and> cm_channelId r \<in> set (channel_ids_of_team d tid)))
                        (channel_members d) \<rparr>)"
  using team no
  by (simp add: leaveTeam_def leaveTeam_channels_eq TeamMember_destroy_def channel_ids_of_team_def)

lemma leaveTeam_owner:
  assumes team: "Team_findByPk d tid = Some t" and own: "ownerId t = u"
  shows "leaveTeam u tid (d\<lparr> team_members := tms \<rparr>) =
           (Response 400 (ErrorJson ''Owner cannot leave team''), d\<lparr> team_members := tms \<rparr>)"
  using team own by (simp add: leaveTeam_def Team_findByPk_def)

text \<open>
  Claim C6. The team \<open>tid\<close> exists. If the requesting user is its owner, \<^verbatim>\<open>leaveTeam\<close>
  answers 400 "Owner cannot leave team" and returns the database as it was, and it does so
  whatever rows, with whatever roles, the team-member table holds. If the requesting user
  is not the owner, \<^verbatim>\<open>leaveTeam\<close> answers 200; afterwards the user has no membership row
  in the team and none in any channel of the team, and the database differs from the
  original exactly by those removed rows.
\<close>

theorem leaveTeam_owner_protected_and_cascade:
  assumes team: "Team_findByPk d tid = Some t"
  shows "(ownerId t = u \<longrightarrow>
            leaveTeam u tid d = (Response 400 (ErrorJson ''Owner cannot leave team''), d)
          \<and> (\<forall>tms. leaveTeam u tid (d\<lparr> team_members := tms \<rparr>)
                 = (Response 400 (ErrorJson ''Owner cannot leave team''),
                    d\<lparr> team_members := tms \<rparr>)))
       \<and> (ownerId t \<noteq> u \<longrightarrow>
            fst (leaveTeam u tid d) = Response 200 (InfoJson ''Left team successfully'')
          \<and> TeamMember_findOne (snd (leaveTeam u tid d)) u tid = None
          \<and> (\<forall>c \<in> set (channels d). chan_teamId c = tid \<longrightarrow>
                ChannelMember_findOne (snd (leaveTeam u tid d)) (channel_id c) u = None)
          \<and> snd (leaveTeam u tid d) =
              d\<lparr> team_members :=
                   filter (\<lambda>r. \<not> (tm_userId r = u \<and> tm_teamId r = tid)) (team_members d),
                 channel_members :=
                   filter (\<lambda>r. \<not> (cm_userId r = u
                                    \<and> cm_channelId r \<in> set (channel_ids_of_team d tid)))
                          (channel_members d) \<rparr>)"
proof (intro conjI impI)
  assume own: "ownerId t = u"
  from leaveTeam_owner [OF team own, of "team_members d"]
  show "leaveTeam u tid d = (Response 400 (ErrorJson ''Owner cannot leave team''), d)"
    by simp
  show "\<forall>tms. leaveTeam u tid (d\<lparr> team_members := tms \<rparr>)
                 = (Response 400 (ErrorJson ''Owner cannot leave team''),
                    d\<lparr> team_members := tms \<rparr>)"
    using leaveTeam_owner [OF team own] by blast
next
  assume no: "ownerId t \<noteq> u"
  note eq = leaveTeam_non_owner [OF team no]
  show "fst (leaveTeam u tid d) = Response 200 (InfoJson ''Left team successfully'')"
    by (simp add: eq)
  show "TeamMember_findOne (snd (leaveTeam u tid d)) u tid = None"
    by (simp add: eq TeamMember_findOne_def find_None_iff)
  show "\<forall>c \<in> set (channels d). chan_teamId c = tid \<longrightarrow>
          ChannelMember_findOne (snd (leaveTeam u tid d)) (channel_id c) u = None"
    by (auto simp: eq ChannelMember_findOne_def find_None_iff channel_ids_of_team_def)
  show "snd (leaveTeam u tid d) =
              d\<lparr> team_members :=
                   filter (\<lambda>r. \<not> (tm_userId r = u \<and> tm_teamId r = tid)) (team_members d),
                 channel_members :=
                   filter (\<lambda>r. \<not> (cm_userId r = u
                                    \<and> cm_channelId r \<in> set (channel_ids_of_team d tid)))
                          (channel_members d) \<rparr>"
    by (simp add: eq)
qed

theorem leaveTeam_owner_protected_and_cascade_witness:
  "Team_findByPk seed_db 50 = Some seed_team
   \<and> ownerId seed_team = 1 \<and> ownerId seed_team \<noteq> 2
   \<and> seed_team \<in> set (teams seed_db)
   \<and> leaveTeam 1 50 seed_db = (Response 400 (ErrorJson ''Owner cannot leave team''), seed_db)
   \<and> fst (leaveTeam 2 50 seed_db) = Response 200 (InfoJson ''Left team successfully'')
   \<and> members_of_team (snd (leaveTeam 2 50 seed_db)) 50 = [1, 3]
   \<and> members_of_channel (snd (leaveTeam 2 50 seed_db)) 10 = [1, 3]"
proof -
  have h: "Team_findByPk seed_db 50 = Some seed_team"
    by (simp add: Team_findByPk_def seed_db_def seed_team_def)
  have o1: "ownerId seed_team = 1" and o2: "ownerId seed_team \<noteq> 2"
    by (simp_all add: seed_team_def)
  have t: "seed_team \<in> set (teams seed_db)" by (simp add: seed_db_def)
  from leaveTeam_owner_protected_and_cascade [OF h, of 1] o1
  have c1: "leaveTeam 1 50 seed_db = (Response 400 (ErrorJson ''Owner cannot leave team''), seed_db)"
    by blast
  note n = leaveTeam_owner_protected_and_cascade [OF h, of 2]
  from n o2
  have c2: "fst (leaveTeam 2 50 seed_db) = Response 200 (InfoJson ''Left team successfully'')"
    by blast
  from n o2
  have c3: "snd (leaveTeam 2 50 seed_db) =
              seed_db\<lparr> team_members :=
                   filter (\<lambda>r. \<not> (tm_userId r = 2 \<and> tm_teamId r = 50)) (team_members seed_db),
                 channel_members :=
                   filter (\<lambda>r. \<not> (cm_userId r = 2
                                    \<and> cm_channelId r \<in> set (channel_ids_of_team seed_db 50)))
                          (channel_members seed_db) \<rparr>"
    by blast
  have c4: "members_of_team (snd (leaveTeam 2 50 seed_db)) 50 = [1, 3]"
    unfolding c3 by (simp add: members_of_team_def seed_db_def)
  have c5: "members_of_channel (snd (leaveTeam 2 50 seed_db)) 10 = [1, 3]"
    unfolding c3 by (simp add: members_of_channel_def channel_ids_of_team_def seed_db_def)
  show ?thesis
    using h o1 o2 t c1 c2 c4 c5 by blast
qed

section \<open>Joining a channel\<close>

lemma ChannelMember_create_new:
  assumes "ChannelMember_findOne d cid u = None"
  shows "ChannelMember_create u cid d =
           Inr (d\<lparr> channel_members := channel_members d @ [\<lparr> cm_userId = u, cm_channelId = cid \<rparr>] \<rparr>)"
proof -
  from assms have "(u, cid) \<notin> cm_key ` set (channel_members d)"
    by (auto simp: ChannelMember_findOne_def find_None_iff cm_key_def)
  then show ?thesis by (simp add: ChannelMember_create_def)
qed

text \<open>
  Claim C10. The channel \<open>cid\<close> exists, user \<open>u\<close> has a membership row in the channel's
  team and none in the channel. Then \<^verbatim>\<open>joinChannel\<close> answers 200 and appends the
  membership row \<open>(u, cid)\<close>, whether the channel is private or not: the private flag of
  the channel is not a hypothesis, and the outcome for a private channel is spelled out.
\<close>

theorem joinChannel_team_member_joins_private:
  assumes ch: "Channel_findByPk d cid = Some c"
      and tm: "TeamMember_findOne d u (chan_teamId c) = Some r"
      and new: "ChannelMember_findOne d cid u = None"
  shows "joinChannel u cid d =
           (Response 200 (InfoJson ''Joined channel successfully''),
            d\<lparr> channel_members := channel_members d @ [\<lparr> cm_userId = u, cm_channelId = cid \<rparr>] \<rparr>)
       \<and> ChannelMember_findOne (snd (joinChannel u cid d)) cid u
           = Some \<lparr> cm_userId = u, cm_channelId = cid \<rparr>
       \<and> (isPrivate c \<longrightarrow>
            fst (joinChannel u cid d) = Response 200 (InfoJson ''Joined channel successfully''))"
proof -
  have eq: "joinChannel u cid d =
           (Response 200 (InfoJson ''Joined channel successfully''),
            d\<lparr> channel_members := channel_members d @ [\<lparr> cm_userId = u, cm_channelId = cid \<rparr>] \<rparr>)"
    using ch tm new by (simp add: joinChannel_def ChannelMember_create_new)
  from new have none: "find (\<lambda>r. cm_channelId r = cid \<and> cm_userId r = u) (channel_members d) = None"
    by (simp add: ChannelMember_findOne_def)
  have found: "ChannelMember_findOne (snd (joinChannel u cid d)) cid u
           = Some \<lparr> cm_userId = u, cm_channelId = cid \<rparr>"
    by (simp add: eq ChannelMember_findOne_def find_app_miss [OF none])
  show ?thesis
    using eq found by simp
qed

theorem joinChannel_team_member_joins_private_witness:
  "Channel_findByPk seed_db 12
     = Some \<lparr> channel_id = 12, channel_name = ''#secret'', channel_description = None,
              chan_teamId = 50, createdById = 1, isPrivate = True, lastMessageId = None \<rparr>
   \<and> TeamMember_findOne seed_db 2 50 = Some \<lparr> tm_userId = 2, tm_teamId = 50, tm_role = Member \<rparr>
   \<and> ChannelMember_findOne seed_db 12 2 = None
   \<and> fst (joinChannel 2 12 seed_db) = Response 200 (InfoJson ''Joined channel successfully'')
   \<and> members_of_channel (snd (joinChannel 2 12 seed_db)) 12 = [1, 2]"
proof -
  let ?c = "\<lparr> channel_id = 12, channel_name = ''#secret'', channel_description = None,
              chan_teamId = 50, createdById = 1, isPrivate = True, lastMessageId = None \<rparr>"
  have h1: "Channel_findByPk seed_db 12 = Some ?c"
    by (simp add: Channel_findByPk_def seed_db_def)
  have h2: "TeamMember_findOne seed_db 2 (chan_teamId ?c)
              = Some \<lparr> tm_userId = 2, tm_teamId = 50, tm_role = Member \<rparr>"
    by (simp add: TeamMember_findOne_def seed_db_def)
  have h3: "ChannelMember_findOne seed_db 12 2 = None"
    by (simp add: ChannelMember_findOne_def seed_db_def)
  have p: "isPrivate ?c" by simp
  note t = joinChannel_team_member_joins_private [OF h1 h2 h3]
  from t have eq: "joinChannel 2 12 seed_db =
           (Response 200 (InfoJson ''Joined channel successfully''),
            seed_db\<lparr> channel_members :=
                       channel_members seed_db @ [\<lparr> cm_userId = 2, cm_channelId = 12 \<rparr>] \<rparr>)"
    by blast
  from t p have c1: "fst (joinChannel 2 12 seed_db)
                       = Response 200 (InfoJson ''Joined channel successfully'')"
    by blast
  have c2: "members_of_channel (snd (joinChannel 2 12 seed_db)) 12 = [1, 2]"
    unfolding eq by (simp add: members_of_channel_def seed_db_def)
  have h2': "TeamMember_findOne seed_db 2 50
               = Some \<lparr> tm_userId = 2, tm_teamId = 50, tm_role = Member \<rparr>"
    using h2 by simp
  show ?thesis
    using h1 h2' h3 c1 c2 by blast
qed

section \<open>Cascading team membership into channels\<close>

lemma distinct_users_of_team_rows:
  "distinct (map (\<lambda>r. (tm_userId r, tm_teamId r)) xs)
   \<Longrightarrow> distinct (map tm_userId (filter (\<lambda>r. tm_teamId r = tid) xs))"
  by (induction xs) (auto simp: image_iff)

lemma distinct_members_of_team:
  "unique_team_members d \<Longrightarrow> distinct (members_of_team d tid)"
  unfolding unique_team_members_def members_of_team_def
  by (rule distinct_users_of_team_rows)

lemma no_rows_of_fresh_channel:
  assumes fk: "fk_channel_members d" and fresh: "cid \<notin> channel_id ` set (channels d)"
  shows "filter (\<lambda>r. cm_channelId r = cid) (channel_members d) = []"
  using fk fresh by (auto simp: fk_channel_members_def filter_empty_conv)

lemma createChannel_public_eq:
  assumes team: "Team_findByPk d tid = Some t"
      and perm: "ownerId t = u \<or> TeamMember_findOne_admin d u tid \<noteq> None"
      and name: "len_ok 1 50 n" and descr: "description_ok descr"
      and fresh: "cid \<notin> channel_id ` set (channels d)"
      and fk: "fk_channel_members d"
      and uniq: "unique_team_members d"
      and pub: "\<not> truthy priv"
  shows "createChannel cid u n descr tid priv d =
           (Response 201 (ChannelJson ''Channel created successfully''
                            (Some (new_channel cid n descr tid u False))),
            d\<lparr> channels := channels d @ [new_channel cid n descr tid u False],
               channel_members :=
                 channel_members d @
                 map (\<lambda>x. \<lparr> cm_userId = x, cm_channelId = cid \<rparr>)
                     (u # filter (\<lambda>x. x \<noteq> u) (members_of_team d tid)) \<rparr>)"
proof -
  let ?ch = "new_channel cid n descr tid u False"
  let ?d1 = "d\<lparr> channels := channels d @ [?ch] \<rparr>"
  let ?d2 = "?d1\<lparr> channel_members := channel_members d @ [\<lparr> cm_userId = u, cm_channelId = cid \<rparr>] \<rparr>"
  let ?rows = "map (\<lambda>x. \<lparr> cm_userId = x, cm_channelId = cid \<rparr>)
                 (filter (\<lambda>x. x \<noteq> u) (members_of_team d tid))"
  have cc: "Channel_create cid n descr tid u False d = Inr (?ch, ?d1)"
    using name descr fresh by (simp add: Channel_create_def Let_def)
  have none: "filter (\<lambda>r. cm_channelId r = cid) (channel_members d) = []"
    by (rule no_rows_of_fresh_channel [OF fk fresh])
  then have nokey: "\<And>x. (x, cid) \<notin> cm_key ` set (channel_members d)"
    by (auto simp: filter_empty_conv cm_key_def)
  have id: "channel_id ?ch = cid" by (simp add: new_channel_def)
  have mc: "ChannelMember_create u cid ?d1 = Inr ?d2"
    using nokey by (simp add: ChannelMember_create_def)
  have rows: "filter (\<lambda>r. cm_userId r \<noteq> u)
                (map (\<lambda>r. \<lparr> cm_userId = tm_userId r, cm_channelId = cid \<rparr>)
                   (filter (\<lambda>r. tm_teamId r = tid) (team_members d))) = ?rows"
    by (simp add: members_of_team_def filter_map comp_def)
  have keys: "map cm_key ?rows = map (\<lambda>x. (x, cid)) (filter (\<lambda>x. x \<noteq> u) (members_of_team d tid))"
    by (simp add: cm_key_def comp_def)
  have dist: "distinct (map cm_key ?rows)"
    unfolding keys using distinct_members_of_team [OF uniq, of tid]
    by (simp add: distinct_map inj_on_def)
  have disj: "\<forall>r \<in> set ?rows. cm_key r \<notin> cm_key ` set (channel_members ?d2)"
    using nokey by (auto simp: cm_key_def)
  have bc: "ChannelMember_bulkCreate ?rows ?d2 = Inr (?d2\<lparr> channel_members := channel_members ?d2 @ ?rows \<rparr>)"
    using dist disj unfolding ChannelMember_bulkCreate_def by simp
  have nf: "find (\<lambda>c. channel_id c = cid) (channels d) = None"
    using fresh by (auto simp: find_None_iff)
  have found: "\<And>cms. Channel_findByPk (d\<lparr> channels := channels d @ [?ch], channel_members := cms \<rparr>) cid = Some ?ch"
    by (simp add: Channel_findByPk_def find_app_miss [OF nf] id)
  have allowed: "\<not> (ownerId t \<noteq> u \<and> TeamMember_findOne_admin d u tid = None)"
    using perm by auto
  have tp: "truthy priv = False" using pub by simp
  show ?thesis
    unfolding createChannel_def
    using team allowed
    by (simp add: tp cc id mc rows bc found Let_def del: not_None_eq)
qed

lemma joinTeam_channels_ok:
  assumes "distinct (map channel_id cs)"
      and "\<forall>c \<in> set cs. (u, channel_id c) \<notin> cm_key ` set (channel_members d)"
  shows "joinTeam_channels u cs d =
           (None, d\<lparr> channel_members :=
                       channel_members d @
                       map (\<lambda>c. \<lparr> cm_userId = u, cm_channelId = channel_id c \<rparr>) cs \<rparr>)"
  using assms
proof (induction cs arbitrary: d)
  case Nil
  show ?case by simp
next
  case (Cons c cs)
  let ?d1 = "d\<lparr> channel_members := channel_members d @ [\<lparr> cm_userId = u, cm_channelId = channel_id c \<rparr>] \<rparr>"
  have step: "ChannelMember_create u (channel_id c) d = Inr ?d1"
    using Cons.prems(2) by (simp add: ChannelMember_create_def)
  have d: "distinct (map channel_id cs)" using Cons.prems(1) by simp
  have rest: "\<forall>x \<in> set cs. (u, channel_id x) \<notin> cm_key ` set (channel_members ?d1)"
  proof
    fix x assume x: "x \<in> set cs"
    from Cons.prems(1) have "channel_id c \<notin> channel_id ` set cs" by simp
    with x have "channel_id x \<noteq> channel_id c" by (metis imageI)
    moreover from x Cons.prems(2)
    have "(u, channel_id x) \<notin> cm_key ` set (channel_members d)" by simp
    ultimately show "(u, channel_id x) \<notin> cm_key ` set (channel_members ?d1)"
      by (simp add: cm_key_def)
  qed
  show ?case
    by (simp add: step Cons.IH [OF d rest])
qed

lemma joinTeam_eq:
  assumes inv: "find (\<lambda>t. inviteCode t = Some code) (teams d) = Some t"
      and new: "TeamMember_findOne d u (team_id t) = None"
      and pk: "pk_channels d"
      and nochan: "\<forall>c \<in> set (public_channels_of_team d (team_id t)).
                     ChannelMember_findOne d (channel_id c) u = None"
  shows "joinTeam u code d =
           (Response 200 (TeamJson ''Joined team successfully'' (Team_findByPk d (team_id t))),
            d\<lparr> team_members :=
                 team_members d @ [\<lparr> tm_userId = u, tm_teamId = team_id t, tm_role = Member \<rparr>],
               channel_members :=
                 channel_members d @
                 map (\<lambda>c. \<lparr> cm_userId = u, cm_channelId = channel_id c \<rparr>)
                     (public_channels_of_team d (team_id t)) \<rparr>)"
proof -
  let ?d1 = "d\<lparr> team_members :=
                 team_members d @ [\<lparr> tm_userId = u, tm_teamId = team_id t, tm_role = Member \<rparr>] \<rparr>"
  let ?cs = "public_channels_of_team d (team_id t)"
  from new have "\<not> (\<exists>x \<in> set (team_members d). tm_userId x = u \<and> tm_teamId x = team_id t)"
    by (auto simp: TeamMember_findOne_def find_None_iff)
  then have tc: "TeamMember_create u (team_id t) Member d = Inr ?d1"
    by (simp add: TeamMember_create_def)
  have dist: "distinct (map channel_id ?cs)"
    using pk by (simp add: pk_channels_def public_channels_of_team_def distinct_map_filter)
  have free: "\<forall>c \<in> set ?cs. (u, channel_id c) \<notin> cm_key ` set (channel_members ?d1)"
  proof
    fix c assume c: "c \<in> set ?cs"
    with nochan have "ChannelMember_findOne d (channel_id c) u = None" by blast
    then show "(u, channel_id c) \<notin> cm_key ` set (channel_members ?d1)"
      by (auto simp: ChannelMember_findOne_def find_None_iff cm_key_def)
  qed
  have loop: "joinTeam_channels u ?cs ?d1 =
           (None, ?d1\<lparr> channel_members :=
                       channel_members ?d1 @
                       map (\<lambda>c. \<lparr> cm_userId = u, cm_channelId = channel_id c \<rparr>) ?cs \<rparr>)"
    by (rule joinTeam_channels_ok [OF dist free])
  have cs: "filter (\<lambda>c. chan_teamId c = team_id t \<and> \<not> isPrivate c) (channels d) = ?cs"
    by (simp add: public_channels_of_team_def)
  have tf: "\<And>tms cms. Team_findByPk (d\<lparr> team_members := tms, channel_members := cms \<rparr>) (team_id t)
              = Team_findByPk d (team_id t)"
    by (simp add: Team_findByPk_def)
  show ?thesis
    unfolding joinTeam_def
    using inv new loop
    by (simp add: tc cs tf Let_def)
qed


text \<open>
  Claim C7. (1) The team \<open>tid\<close> exists, \<open>u\<close> is its owner or has an admin row, the name
  and description pass validation, the drawn channel id is new, and the schema's
  constraints hold (member rows reference existing channels; one row per user and team).
  Then \<^verbatim>\<open>createChannel\<close> without a truthy \<^verbatim>\<open>isPrivate\<close> answers 201, and the member rows
  of the new channel are the creator followed by the other users of the team: as a set
  the team's members plus the creator, and no user (so not the creator either) twice.
  (2) The invite code resolves to a team, user \<open>w\<close> has no row in it and none in its
  public channels (\<^verbatim>\<open>leaveTeam\<close> removes them and \<^verbatim>\<open>joinChannel\<close> requires the team
  row), and channel ids are unique. Then \<^verbatim>\<open>joinTeam\<close> answers 200, \<open>w\<close> has a member-role
  row in the team and a row in every public channel of the team.
  (3) \<^verbatim>\<open>leaveChannel\<close> returns the team-member table unchanged, for every user, channel
  and database.
\<close>

theorem cascade_consistency:
  assumes team: "Team_findByPk d tid = Some t"
      and perm: "ownerId t = u \<or> TeamMember_findOne_admin d u tid \<noteq> None"
      and name: "len_ok 1 50 n" and descr: "description_ok descr"
      and fresh: "cid \<notin> channel_id ` set (channels d)"
      and fk: "fk_channel_members d"
      and uniq: "unique_team_members d"
      and pub: "\<not> truthy priv"
      and inv: "find (\<lambda>t. inviteCode t = Some code) (teams e) = Some t'"
      and new: "TeamMember_findOne e w (team_id t') = None"
      and pk: "pk_channels e"
      and nochan: "\<forall>c \<in> set (public_channels_of_team e (team_id t')).
                     ChannelMember_findOne e (channel_id c) w = None"
  shows "fst (createChannel cid u n descr tid priv d)
           = Response 201 (ChannelJson ''Channel created successfully''
                             (Some (new_channel cid n descr tid u False)))
       \<and> members_of_channel (snd (createChannel cid u n descr tid priv d)) cid
           = u # filter (\<lambda>x. x \<noteq> u) (members_of_team d tid)
       \<and> set (members_of_channel (snd (createChannel cid u n descr tid priv d)) cid)
           = set (members_of_team d tid) \<union> {u}
       \<and> distinct (members_of_channel (snd (createChannel cid u n descr tid priv d)) cid)
       \<and> fst (joinTeam w code e)
           = Response 200 (TeamJson ''Joined team successfully'' (Team_findByPk e (team_id t')))
       \<and> TeamMember_findOne (snd (joinTeam w code e)) w (team_id t')
           = Some \<lparr> tm_userId = w, tm_teamId = team_id t', tm_role = Member \<rparr>
       \<and> (\<forall>c \<in> set (public_channels_of_team e (team_id t')).
             w \<in> set (members_of_channel (snd (joinTeam w code e)) (channel_id c)))
       \<and> team_members (snd (leaveChannel v c' f)) = team_members f"
proof -
  note ce = createChannel_public_eq [OF team perm name descr fresh fk uniq pub]
  have none: "filter (\<lambda>r. cm_channelId r = cid) (channel_members d) = []"
    by (rule no_rows_of_fresh_channel [OF fk fresh])
  have a1: "fst (createChannel cid u n descr tid priv d)
           = Response 201 (ChannelJson ''Channel created successfully''
                             (Some (new_channel cid n descr tid u False)))"
    by (simp add: ce)
  have a2: "members_of_channel (snd (createChannel cid u n descr tid priv d)) cid
           = u # filter (\<lambda>x. x \<noteq> u) (members_of_team d tid)"
    by (simp add: ce members_of_channel_def none comp_def)
  have a3: "set (members_of_channel (snd (createChannel cid u n descr tid priv d)) cid)
           = set (members_of_team d tid) \<union> {u}"
    unfolding a2 by auto
  have a4: "distinct (members_of_channel (snd (createChannel cid u n descr tid priv d)) cid)"
    unfolding a2 using distinct_members_of_team [OF uniq, of tid] by simp
  note je = joinTeam_eq [OF inv new pk nochan]
  have b1: "fst (joinTeam w code e)
           = Response 200 (TeamJson ''Joined team successfully'' (Team_findByPk e (team_id t')))"
    by (simp add: je)
  have nf: "find (\<lambda>r. tm_userId r = w \<and> tm_teamId r = team_id t') (team_members e) = None"
    using new by (simp add: TeamMember_findOne_def)
  have b2: "TeamMember_findOne (snd (joinTeam w code e)) w (team_id t')
           = Some \<lparr> tm_userId = w, tm_teamId = team_id t', tm_role = Member \<rparr>"
    by (simp add: je TeamMember_findOne_def find_app_miss [OF nf])
  have b3: "\<forall>c \<in> set (public_channels_of_team e (team_id t')).
             w \<in> set (members_of_channel (snd (joinTeam w code e)) (channel_id c))"
    by (auto simp: je members_of_channel_def image_iff)
  have c1: "team_members (snd (leaveChannel v c' f)) = team_members f"
    by (simp add: leaveChannel_def ChannelMember_destroy_def split: option.splits)
  show ?thesis
    using a1 a2 a3 a4 b1 b2 b3 c1 by blast
qed

theorem cascade_consistency_witness:
  "Team_findByPk seed_db 50 = Some seed_team
   \<and> ownerId seed_team = 1
   \<and> len_ok 1 50 ''dev'' \<and> description_ok None
   \<and> 13 \<notin> channel_id ` set (channels seed_db)
   \<and> fk_channel_members seed_db \<and> unique_team_members seed_db \<and> \<not> truthy None
   \<and> find (\<lambda>t. inviteCode t = Some ''invite'') (teams seed_db) = Some seed_team
   \<and> TeamMember_findOne seed_db 4 (team_id seed_team) = None
   \<and> pk_channels seed_db
   \<and> map channel_id (public_channels_of_team seed_db (team_id seed_team)) = [10]
   \<and> ChannelMember_findOne seed_db 10 4 = None
   \<and> members_of_team seed_db 50 = [1, 2, 3]
   \<and> members_of_channel (snd (createChannel 13 1 ''dev'' None 50 None seed_db)) 13 = [1, 2, 3]
   \<and> 4 \<in> set (members_of_channel (snd (joinTeam 4 ''invite'' seed_db)) 10)
   \<and> team_members (snd (leaveChannel 3 10 seed_db)) = team_members seed_db"
proof -
  have h1: "Team_findByPk seed_db 50 = Some seed_team"
    by (simp add: Team_findByPk_def seed_db_def seed_team_def)
  have h2: "ownerId seed_team = 1 \<or> TeamMember_findOne_admin seed_db 1 50 \<noteq> None"
    by (simp add: seed_team_def)
  have h3: "len_ok 1 50 ''dev''" by (simp add: len_ok_def)
  have h4: "description_ok None" by (simp add: description_ok_def)
  have h5: "13 \<notin> channel_id ` set (channels seed_db)" by (simp add: seed_db_def)
  have h6: "fk_channel_members seed_db" by (simp add: fk_channel_members_def seed_db_def)
  have h7: "unique_team_members seed_db" by (simp add: unique_team_members_def seed_db_def)
  have h8: "\<not> truthy None" by (simp add: truthy_def)
  have h9: "find (\<lambda>t. inviteCode t = Some ''invite'') (teams seed_db) = Some seed_team"
    by (simp add: seed_db_def seed_team_def)
  have h10: "TeamMember_findOne seed_db 4 (team_id seed_team) = None"
    by (simp add: TeamMember_findOne_def seed_db_def seed_team_def)
  have h11: "pk_channels seed_db" by (simp add: pk_channels_def seed_db_def)
  have pc: "public_channels_of_team seed_db (team_id seed_team)
              = [\<lparr> channel_id = 10, channel_name = ''#general'', channel_description = None,
                   chan_teamId = 50, createdById = 1, isPrivate = False,
                   lastMessageId = Some 100 \<rparr>]"
    by (simp add: public_channels_of_team_def seed_db_def seed_team_def)
  have h12: "\<forall>c \<in> set (public_channels_of_team seed_db (team_id seed_team)).
               ChannelMember_findOne seed_db (channel_id c) 4 = None"
    unfolding pc by (simp add: ChannelMember_findOne_def seed_db_def)
  have mt: "members_of_team seed_db 50 = [1, 2, 3]"
    by (simp add: members_of_team_def seed_db_def)
  note t = cascade_consistency [OF h1 h2 h3 h4 h5 h6 h7 h8 h9 h10 h11 h12, of 3 10 seed_db]
  from t have "members_of_channel (snd (createChannel 13 1 ''dev'' None 50 None seed_db)) 13
                 = 1 # filter (\<lambda>x. x \<noteq> 1) (members_of_team seed_db 50)"
    by blast
  then have c1: "members_of_channel (snd (createChannel 13 1 ''dev'' None 50 None seed_db)) 13
                   = [1, 2, 3]"
    by (simp add: mt)
  from t have "\<forall>c \<in> set (public_channels_of_team seed_db (team_id seed_team)).
             4 \<in> set (members_of_channel (snd (joinTeam 4 ''invite'' seed_db)) (channel_id c))"
    by blast
  then have c2: "4 \<in> set (members_of_channel (snd (joinTeam 4 ''invite'' seed_db)) 10)"
    unfolding pc by simp
  from t have c3: "team_members (snd (leaveChannel 3 10 seed_db)) = team_members seed_db"
    by blast
  have o: "ownerId seed_team = 1" by (simp add: seed_team_def)
  have pc': "map channel_id (public_channels_of_team seed_db (team_id seed_team)) = [10]"
    by (simp add: pc)
  have nc: "ChannelMember_findOne seed_db 10 4 = None"
    by (simp add: ChannelMember_findOne_def seed_db_def)
  show ?thesis
    using h1 o h3 h4 h5 h6 h7 h8 h9 h10 h11 pc' nc mt c1 c2 c3 by blast
qed

section \<open>Posting a message\<close>

lemma Channel_findByPk_after_pointer:
  "Channel_findByPk (Channel_update_lastMessage cid mid d) cid
     = map_option (\<lambda>c. c\<lparr> lastMessageId := Some mid \<rparr>) (Channel_findByPk d cid)"
proof -
  let ?f = "\<lambda>c. if channel_id c = cid then c\<lparr> lastMessageId := Some mid \<rparr> else c"
  have "find (\<lambda>c. channel_id c = cid) (map ?f (channels d))
          = map_option ?f (find (\<lambda>c. channel_id c = cid) (channels d))"
    by (rule find_map_same) simp
  moreover have "map_option ?f (find (\<lambda>c. channel_id c = cid) (channels d))
          = map_option (\<lambda>c. c\<lparr> lastMessageId := Some mid \<rparr>) (find (\<lambda>c. channel_id c = cid) (channels d))"
    by (cases "find (\<lambda>c. channel_id c = cid) (channels d)") (auto dest: find_Some_iff [THEN iffD1])
  ultimately show ?thesis
    by (simp add: Channel_findByPk_def Channel_update_lastMessage_def)
qed

lemma sendMessage_invalid:
  assumes mem: "ChannelMember_findOne d cid u = Some r"
      and ch: "Channel_findByPk d cid = Some c"
      and bad: "\<not> len_ok 1 4000 txt"
  shows "sendMessage mid now u txt cid d = (Response 500 (ErrorOf SequelizeValidationError), d)"
  using mem ch bad by (simp add: sendMessage_def Message_create_def)

lemma sendMessage_valid:
  assumes mem: "ChannelMember_findOne d cid u = Some r"
      and ch: "Channel_findByPk d cid = Some c"
      and ok: "len_ok 1 4000 txt"
      and fresh: "mid \<notin> message_id ` set (messages d)"
  shows "sendMessage mid now u txt cid d =
           (Response 201 (MessageJson ''Message sent successfully''
                            (Some (new_message mid now txt u cid (chan_teamId c)))),
            Channel_update_lastMessage cid mid
              (d\<lparr> messages := messages d @ [new_message mid now txt u cid (chan_teamId c)] \<rparr>))"
proof -
  let ?m = "new_message mid now txt u cid (chan_teamId c)"
  have id: "message_id ?m = mid" by (simp add: new_message_def)
  have mc: "Message_create mid now txt u cid (chan_teamId c) d
              = Inr (?m, d\<lparr> messages := messages d @ [?m] \<rparr>)"
    using ok fresh by (simp add: Message_create_def Let_def)
  have nf: "find (\<lambda>m. message_id m = mid) (messages d) = None"
    using fresh by (auto simp: find_None_iff)
  have found: "Message_findByPk (Channel_update_lastMessage cid mid
                  (d\<lparr> messages := messages d @ [?m] \<rparr>)) mid = Some ?m"
    by (simp add: Message_findByPk_def Channel_update_lastMessage_def find_app_miss [OF nf] id)
  show ?thesis
    using mem ch by (simp add: sendMessage_def mc id found Let_def)
qed


text \<open>
  Claim C8, as stated, fails on blank content: alice, a member of the public channel,
  posts a single space. The request is answered 201, the row is appended to the message
  table and the channel's last-message pointer is set to it.
\<close>

theorem blank_content_accepted:
  "whitespace_only '' ''
   \<and> fst (sendMessage 101 5 2 '' '' 10 seed_db)
       = Response 201 (MessageJson ''Message sent successfully''
                         (Some (new_message 101 5 '' '' 2 10 50)))
   \<and> messages (snd (sendMessage 101 5 2 '' '' 10 seed_db))
       = [seed_message, new_message 101 5 '' '' 2 10 50]
   \<and> map_option lastMessageId (Channel_findByPk (snd (sendMessage 101 5 2 '' '' 10 seed_db)) 10)
       = Some (Some 101)"
  by (simp add: whitespace_only_def sendMessage_def ChannelMember_findOne_def Channel_findByPk_def
      Message_create_def len_ok_def Channel_update_lastMessage_def Message_findByPk_def
      seed_db_def seed_message_def new_message_def Let_def)


lemma on_send_message_as_sendMessage:
  assumes sock: "sock_userId sock = u" and s: "sdb s = d"
  shows "on_send_message sock mid now txt cid s =
           (case sendMessage mid now u txt cid d of
              (Response code body, d') \<Rightarrow>
                if code = 403 then socket_emit sock (Error_event ''Access denied'') s
                else if code = 500 then socket_emit sock (Error_event ''Failed to send message'') s
                else io_to_emit (Channel_room cid) (New_message (Message_findByPk d' mid))
                       (s\<lparr> sdb := d' \<rparr>))"
proof -
  have id: "\<And>m d1 tid w e. Message_create mid now txt w cid tid e = Inr (m, d1) \<Longrightarrow> message_id m = mid"
    by (auto simp: Message_create_def new_message_def Let_def split: if_splits)
  show ?thesis
    using sock s
    by (auto simp: on_send_message_def sendMessage_def Let_def dest: id
        split: option.splits sum.splits)
qed

text \<open>
  Claim C8, amended. The requesting user has a member row in the channel and the channel
  exists. Content that is empty or longer than 4000 units fails the model validation: the
  controller answers 500 with the validation error and the socket handler emits "Failed
  to send message" to the sender, and the database is returned as it was (no message row,
  pointer unchanged). Content of 1 to 4000 units, with a message id not yet in the table,
  is accepted: the answer is 201, exactly one row with the drawn id, the clock value and
  the content is appended, the channel's last-message pointer is that id, and the socket
  handler broadcasts the row to the channel room. Whitespace-only content of at most 4000
  units is in the accepted range.
\<close>

theorem post_message_validation:
  assumes mem: "ChannelMember_findOne d cid u = Some r"
      and ch: "Channel_findByPk d cid = Some c"
      and sock: "sock_userId sock = u" and s: "sdb s = d"
  shows "(txt = [] \<or> 4000 < length txt \<longrightarrow>
            sendMessage mid now u txt cid d = (Response 500 (ErrorOf SequelizeValidationError), d)
          \<and> on_send_message sock mid now txt cid s
              = socket_emit sock (Error_event ''Failed to send message'') s
          \<and> sdb (on_send_message sock mid now txt cid s) = d)
       \<and> (txt \<noteq> [] \<and> length txt \<le> 4000 \<and> mid \<notin> message_id ` set (messages d) \<longrightarrow>
            fst (sendMessage mid now u txt cid d)
              = Response 201 (MessageJson ''Message sent successfully''
                                (Some (new_message mid now txt u cid (chan_teamId c))))
          \<and> messages (snd (sendMessage mid now u txt cid d))
              = messages d @ [new_message mid now txt u cid (chan_teamId c)]
          \<and> Channel_findByPk (snd (sendMessage mid now u txt cid d)) cid
              = Some (c\<lparr> lastMessageId := Some mid \<rparr>)
          \<and> on_send_message sock mid now txt cid s
              = io_to_emit (Channel_room cid)
                  (New_message (Some (new_message mid now txt u cid (chan_teamId c))))
                  (s\<lparr> sdb := snd (sendMessage mid now u txt cid d) \<rparr>))
       \<and> (whitespace_only txt \<and> length txt \<le> 4000 \<longrightarrow> txt \<noteq> [] \<and> len_ok 1 4000 txt)"
proof (intro conjI impI)
  assume "txt = [] \<or> 4000 < length txt"
  then have bad: "\<not> len_ok 1 4000 txt" by (auto simp: len_ok_def)
  note e = sendMessage_invalid [OF mem ch bad]
  show "sendMessage mid now u txt cid d = (Response 500 (ErrorOf SequelizeValidationError), d)"
    by (rule e)
  show sk: "on_send_message sock mid now txt cid s
          = socket_emit sock (Error_event ''Failed to send message'') s"
    by (simp add: on_send_message_as_sendMessage [OF sock s] e)
  show "sdb (on_send_message sock mid now txt cid s) = d"
    by (simp add: sk socket_emit_def s)
next
  assume a: "txt \<noteq> [] \<and> length txt \<le> 4000 \<and> mid \<notin> message_id ` set (messages d)"
  then have ok: "len_ok 1 4000 txt" and fresh: "mid \<notin> message_id ` set (messages d)"
    by (auto simp: len_ok_def Suc_le_eq)
  note e = sendMessage_valid [OF mem ch ok fresh]
  let ?m = "new_message mid now txt u cid (chan_teamId c)"
  show "fst (sendMessage mid now u txt cid d)
          = Response 201 (MessageJson ''Message sent successfully'' (Some ?m))"
    by (simp add: e)
  show "messages (snd (sendMessage mid now u txt cid d)) = messages d @ [?m]"
    by (simp add: e Channel_update_lastMessage_def)
  have "Channel_findByPk (d\<lparr> messages := messages d @ [?m] \<rparr>) cid = Some c"
    using ch by (simp add: Channel_findByPk_def)
  then show "Channel_findByPk (snd (sendMessage mid now u txt cid d)) cid
          = Some (c\<lparr> lastMessageId := Some mid \<rparr>)"
    by (simp add: e Channel_findByPk_after_pointer)
  have nf: "find (\<lambda>m. message_id m = mid) (messages d) = None"
    using fresh by (auto simp: find_None_iff)
  have found: "Message_findByPk (Channel_update_lastMessage cid mid
                  (d\<lparr> messages := messages d @ [?m] \<rparr>)) mid = Some ?m"
    by (simp add: Message_findByPk_def Channel_update_lastMessage_def find_app_miss [OF nf]
        new_message_def)
  show "on_send_message sock mid now txt cid s
          = io_to_emit (Channel_room cid) (New_message (Some ?m))
              (s\<lparr> sdb := snd (sendMessage mid now u txt cid d) \<rparr>)"
    by (simp add: on_send_message_as_sendMessage [OF sock s] e found)
next
  assume "whitespace_only txt \<and> length txt \<le> 4000"
  then show "txt \<noteq> []" by (simp add: whitespace_only_def)
next
  assume "whitespace_only txt \<and> length txt \<le> 4000"
  then show "len_ok 1 4000 txt" by (auto simp: whitespace_only_def len_ok_def Suc_le_eq)
qed

theorem post_message_validation_witness:
  "ChannelMember_findOne seed_db 10 2 = Some \<lparr> cm_userId = 2, cm_channelId = 10 \<rparr>
   \<and> Channel_findByPk seed_db 10
       = Some \<lparr> channel_id = 10, channel_name = ''#general'', channel_description = None,
                chan_teamId = 50, createdById = 1, isPrivate = False, lastMessageId = Some 100 \<rparr>
   \<and> sock_userId alice_sock = 2 \<and> sdb seed_server = seed_db
   \<and> (([] :: string) = [] \<or> 4000 < length ([] :: string))
   \<and> sendMessage 101 5 2 [] 10 seed_db
       = (Response 500 (ErrorOf SequelizeValidationError), seed_db)
   \<and> ('' '' \<noteq> [] \<and> length '' '' \<le> 4000 \<and> 101 \<notin> message_id ` set (messages seed_db))
   \<and> (whitespace_only '' '' \<and> length '' '' \<le> 4000)
   \<and> messages (snd (sendMessage 101 5 2 '' '' 10 seed_db))
       = messages seed_db @ [new_message 101 5 '' '' 2 10 50]
   \<and> len_ok 1 4000 '' ''"
proof -
  let ?c = "\<lparr> channel_id = 10, channel_name = ''#general'', channel_description = None,
              chan_teamId = 50, createdById = 1, isPrivate = False, lastMessageId = Some 100 \<rparr>"
  have h1: "ChannelMember_findOne seed_db 10 2 = Some \<lparr> cm_userId = 2, cm_channelId = 10 \<rparr>"
    by (simp add: ChannelMember_findOne_def seed_db_def)
  have h2: "Channel_findByPk seed_db 10 = Some ?c"
    by (simp add: Channel_findByPk_def seed_db_def)
  have h3: "sock_userId alice_sock = 2" by (simp add: alice_sock_def)
  have h4: "sdb seed_server = seed_db" by (simp add: seed_server_def)
  have p1: "([] :: string) = [] \<or> 4000 < length ([] :: string)" by simp
  have p2: "'' '' \<noteq> [] \<and> length '' '' \<le> 4000 \<and> 101 \<notin> message_id ` set (messages seed_db)"
    by (simp add: seed_db_def seed_message_def)
  have p3: "whitespace_only '' '' \<and> length '' '' \<le> 4000"
    by (simp add: whitespace_only_def)
  from post_message_validation [OF h1 h2 h3 h4, of "[]" 101 5] p1
  have c1: "sendMessage 101 5 2 [] 10 seed_db
              = (Response 500 (ErrorOf SequelizeValidationError), seed_db)"
    by blast
  note t = post_message_validation [OF h1 h2 h3 h4, of "'' ''" 101 5]
  from t p2
  have "messages (snd (sendMessage 101 5 2 '' '' 10 seed_db))
          = messages seed_db @ [new_message 101 5 '' '' 2 10 (chan_teamId ?c)]"
    by blast
  then have c2: "messages (snd (sendMessage 101 5 2 '' '' 10 seed_db))
          = messages seed_db @ [new_message 101 5 '' '' 2 10 50]"
    by simp
  from t p3 have c3: "len_ok 1 4000 '' ''" by blast
  show ?thesis
    using h1 h2 h3 h4 p1 p2 p3 c1 c2 c3 by blast
qed

section \<open>Joining a channel room\<close>

text \<open>
  Claim C9, as stated, fails on the signal: bob is not a member of the private channel
  12; his \<^verbatim>\<open>join-channel\<close> request for it leaves the server exactly as it was, so
  his connection has received nothing, no access-denied signal either.
\<close>

theorem join_channel_denied_silently:
  "ChannelMember_findOne (sdb seed_server) 12 (sock_userId bob_sock) = None
   \<and> on_join_channel bob_sock 12 seed_server = seed_server
   \<and> inbox (on_join_channel bob_sock 12 seed_server) (sock_id bob_sock) = []"
  by (simp add: on_join_channel_def ChannelMember_findOne_def seed_server_def seed_db_def
      bob_sock_def)

text \<open>
  Claim C9, amended. The \<^verbatim>\<open>join-channel\<close> handler looks the membership row up first.
  Without a row the request is ignored: the server state is unchanged, so the room
  subscriptions are unchanged and no event at all is delivered to the connection. With a
  row the connection is subscribed to the channel's room.
\<close>

theorem join_channel_by_membership:
  "(ChannelMember_findOne (sdb s) cid (sock_userId sock) = None \<longrightarrow>
      on_join_channel sock cid s = s
    \<and> rooms (on_join_channel sock cid s) = rooms s
    \<and> inbox (on_join_channel sock cid s) = inbox s)
   \<and> (ChannelMember_findOne (sdb s) cid (sock_userId sock) \<noteq> None \<longrightarrow>
      rooms (on_join_channel sock cid s) = insert (sock_id sock, Channel_room cid) (rooms s)
    \<and> inbox (on_join_channel sock cid s) = inbox s
    \<and> sdb (on_join_channel sock cid s) = sdb s)"
  by (auto simp: on_join_channel_def)

theorem join_channel_by_membership_witness:
  "ChannelMember_findOne (sdb seed_server) 12 (sock_userId bob_sock) = None
   \<and> ChannelMember_findOne (sdb idle_server) 10 (sock_userId bob_sock) \<noteq> None
   \<and> rooms (on_join_channel bob_sock 12 seed_server) = rooms seed_server
   \<and> rooms (on_join_channel bob_sock 10 idle_server) = {(9, Channel_room 10)}"
proof -
  have h1: "ChannelMember_findOne (sdb seed_server) 12 (sock_userId bob_sock) = None"
    by (simp add: ChannelMember_findOne_def seed_server_def seed_db_def bob_sock_def)
  have h2: "ChannelMember_findOne (sdb idle_server) 10 (sock_userId bob_sock) \<noteq> None"
    by (simp add: ChannelMember_findOne_def idle_server_def seed_db_def bob_sock_def)
  from join_channel_by_membership [of seed_server 12 bob_sock] h1
  have c1: "rooms (on_join_channel bob_sock 12 seed_server) = rooms seed_server"
    by blast
  from join_channel_by_membership [of idle_server 10 bob_sock] h2
  have "rooms (on_join_channel bob_sock 10 idle_server)
          = insert (sock_id bob_sock, Channel_room 10) (rooms idle_server)"
    by blast
  then have c2: "rooms (on_join_channel bob_sock 10 idle_server) = {(9, Channel_room 10)}"
    by (simp add: idle_server_def bob_sock_def)
  show ?thesis
    using h1 h2 c1 c2 by blast
qed

section \<open>Presence\<close>

text \<open>
  Claim C1, as stated, fails: alice opens two connections and closes the first. Her second
  connection is still open, yet her user row says offline, with last-seen stamped.
\<close>

theorem offline_while_still_connected:
  "sockets alice_closed_one = [alice_sock2] \<and> sock_userId alice_sock2 = 2
   \<and> User_findByPk (sdb alice_twice) 2
       = Some \<lparr> user_id = 2, username = ''alice'', isOnline = True, lastSeen = None \<rparr>
   \<and> User_findByPk (sdb alice_closed_one) 2
       = Some \<lparr> user_id = 2, username = ''alice'', isOnline = False, lastSeen = Some 9 \<rparr>"
  by (simp add: alice_closed_one_def alice_twice_def on_disconnect_def on_connection_def
      idle_server_def seed_db_def alice_sock_def alice_sock2_def User_findByPk_def
      User_update_online_def User_update_offline_def)

text \<open>
  Claim C1, amended. The handlers keep no count of connections per user. For a connection
  whose user row exists: opening it sets the row online; closing it sets the row offline
  and stamps last-seen with the time of the disconnect, and it does so while every other
  connection, of the same user too, stays in the set of open connections.
\<close>

theorem presence_follows_last_event:
  assumes usr: "User_findByPk (sdb s) (sock_userId sock) = Some usr"
  shows "User_findByPk (sdb (on_connection sock s)) (sock_userId sock)
           = Some (usr\<lparr> isOnline := True \<rparr>)
       \<and> User_findByPk (sdb (on_disconnect sock now s)) (sock_userId sock)
           = Some (usr\<lparr> isOnline := False, lastSeen := Some now \<rparr>)
       \<and> (\<forall>other \<in> set (sockets s). sock_id other \<noteq> sock_id sock \<longrightarrow>
             other \<in> set (sockets (on_disconnect sock now s)))"
proof -
  let ?P = "\<lambda>u. user_id u = sock_userId sock"
  let ?on = "\<lambda>u. if user_id u = sock_userId sock then u\<lparr> isOnline := True \<rparr> else u"
  let ?off = "\<lambda>u. if user_id u = sock_userId sock
                   then u\<lparr> isOnline := False, lastSeen := Some now \<rparr> else u"
  from usr have f: "find ?P (users (sdb s)) = Some usr" by (simp add: User_findByPk_def)
  then have p: "user_id usr = sock_userId sock" by (rule find_sat)
  have "find ?P (map ?on (users (sdb s))) = map_option ?on (find ?P (users (sdb s)))"
    by (rule find_map_same) simp
  then have a: "User_findByPk (sdb (on_connection sock s)) (sock_userId sock)
                  = Some (usr\<lparr> isOnline := True \<rparr>)"
    using f p by (simp add: User_findByPk_def on_connection_def User_update_online_def)
  have "find ?P (map ?off (users (sdb s))) = map_option ?off (find ?P (users (sdb s)))"
    by (rule find_map_same) simp
  then have b: "User_findByPk (sdb (on_disconnect sock now s)) (sock_userId sock)
                  = Some (usr\<lparr> isOnline := False, lastSeen := Some now \<rparr>)"
    using f p by (simp add: User_findByPk_def on_disconnect_def User_update_offline_def)
  have c: "\<forall>other \<in> set (sockets s). sock_id other \<noteq> sock_id sock \<longrightarrow>
             other \<in> set (sockets (on_disconnect sock now s))"
    by (simp add: on_disconnect_def)
  show ?thesis using a b c by blast
qed

theorem presence_follows_last_event_witness:
  "User_findByPk (sdb alice_twice) (sock_userId alice_sock)
     = Some \<lparr> user_id = 2, username = ''alice'', isOnline = True, lastSeen = None \<rparr>
   \<and> alice_sock2 \<in> set (sockets alice_twice) \<and> sock_id alice_sock2 \<noteq> sock_id alice_sock
   \<and> User_findByPk (sdb (on_disconnect alice_sock 9 alice_twice)) (sock_userId alice_sock)
       = Some \<lparr> user_id = 2, username = ''alice'', isOnline = False, lastSeen = Some 9 \<rparr>
   \<and> alice_sock2 \<in> set (sockets (on_disconnect alice_sock 9 alice_twice))"
proof -
  let ?a = "\<lparr> user_id = 2, username = ''alice'', isOnline = True, lastSeen = None \<rparr>"
  have h: "User_findByPk (sdb alice_twice) (sock_userId alice_sock) = Some ?a"
    by (simp add: alice_twice_def on_connection_def idle_server_def seed_db_def alice_sock_def
        alice_sock2_def User_findByPk_def User_update_online_def)
  have m: "alice_sock2 \<in> set (sockets alice_twice)"
    by (simp add: alice_twice_def on_connection_def)
  have n: "sock_id alice_sock2 \<noteq> sock_id alice_sock"
    by (simp add: alice_sock_def alice_sock2_def)
  note t = presence_follows_last_event [OF h, of 9]
  from t have "User_findByPk (sdb (on_disconnect alice_sock 9 alice_twice)) (sock_userId alice_sock)
                 = Some (?a\<lparr> isOnline := False, lastSeen := Some 9 \<rparr>)"
    by blast
  then have c1: "User_findByPk (sdb (on_disconnect alice_sock 9 alice_twice)) (sock_userId alice_sock)
       = Some \<lparr> user_id = 2, username = ''alice'', isOnline = False, lastSeen = Some 9 \<rparr>"
    by simp
  from t m n have c2: "alice_sock2 \<in> set (sockets (on_disconnect alice_sock 9 alice_twice))"
    by blast
  show ?thesis using h m n c1 c2 by blast
qed

section \<open>Toggling a reaction\<close>










section \<open>Operations of a user removed from a channel\<close>

text \<open>
  Claim C3, as stated, fails for edits and deletes: alice has left the public channel, so
  she has no membership row, while her connection is still subscribed to the channel's
  room. Her \<^verbatim>\<open>edit-message\<close> request for her own message 100 in that channel is carried
  out: the row gets the new content and an edited-at stamp, and the edit is broadcast to
  the room. Her \<^verbatim>\<open>delete-message\<close> request for the same message is carried out too: the
  row is gone and the id is broadcast to the room. No "Access denied" is sent.
\<close>

theorem removed_member_still_edits_and_deletes:
  "ChannelMember_findOne (sdb alice_left) 10 (sock_userId alice_sock) = None
   \<and> (sock_id alice_sock, Channel_room 10) \<in> rooms alice_left
   \<and> Message_findByPk (sdb alice_left) 100 = Some seed_message
   \<and> msg_channelId seed_message = 10
   \<and> Message_findByPk (sdb (on_edit_message alice_sock 6 100 ''edited'' alice_left)) 100
       = Some (seed_message\<lparr> content := ''edited'', editedAt := Some 6 \<rparr>)
   \<and> inbox (on_edit_message alice_sock 6 100 ''edited'' alice_left) (sock_id bob_sock)
       = [Message_edited (Some (seed_message\<lparr> content := ''edited'', editedAt := Some 6 \<rparr>))]
   \<and> inbox (on_edit_message alice_sock 6 100 ''edited'' alice_left) (sock_id alice_sock)
       = [Message_edited (Some (seed_message\<lparr> content := ''edited'', editedAt := Some 6 \<rparr>))]
   \<and> map message_id (messages (sdb alice_left)) = [100, 101]
   \<and> map message_id (messages (sdb (on_delete_message alice_sock 100 alice_left))) = [101]
   \<and> inbox (on_delete_message alice_sock 100 alice_left) (sock_id bob_sock)
       = [Message_deleted 100]
   \<and> inbox (on_delete_message alice_sock 100 alice_left) (sock_id alice_sock)
       = [Message_deleted 100]"
  by code_simp

lemma own_message_exists:
  assumes "Message_findOne_own d k u = Some m"
  shows "k \<in> message_id ` set (messages d)"
proof -
  from assms have "m \<in> set (messages d)" and "message_id m = k"
    by (auto simp: Message_findOne_own_def find_Some_iff)
  then show ?thesis by blast
qed

text \<open>
  Claim C3, amended. The user of the connection has no membership row in the channel
  (whether or not the connection is still subscribed to the channel's room). Then a post
  to the channel is rejected: the socket handler only emits "Access denied" to the
  connection, the controller answers 403 "Access denied", and the database and the room
  subscriptions stay as they were. A reaction on a message of that channel is answered
  403 "Access denied" with the database as it was. Edits and deletes are decided by sender
  ownership alone and never by membership: for a message of the user's own, the edit
  (with content of valid length) is applied and broadcast to the message's channel room;
  the delete removes the row and broadcasts the id, unless a last-message pointer or a
  reply still references the message: then the storage refuses the delete, nothing is
  removed or broadcast, and the connection gets "Failed to delete message".
\<close>

theorem membership_checked_on_post_and_react:
  assumes gone: "ChannelMember_findOne (sdb s) cid (sock_userId sock) = None"
  shows "on_send_message sock mid now txt cid s = socket_emit sock (Error_event ''Access denied'') s
       \<and> sdb (on_send_message sock mid now txt cid s) = sdb s
       \<and> rooms (on_send_message sock mid now txt cid s) = rooms s
       \<and> sendMessage mid now (sock_userId sock) txt cid (sdb s)
           = (Response 403 (ErrorJson ''Access denied''), sdb s)
       \<and> (Message_findByPk (sdb s) k = Some m \<and> msg_channelId m = cid \<longrightarrow>
             addReaction (sock_userId sock) k e (sdb s)
               = (Response 403 (ErrorJson ''Access denied''), sdb s))
       \<and> (Message_findOne_own (sdb s) k (sock_userId sock) = Some m \<and> len_ok 1 4000 txt \<longrightarrow>
             on_edit_message sock now k txt s
               = io_to_emit (Channel_room (msg_channelId m))
                   (Message_edited
                      (Message_findByPk (rewrite_message m txt now (sdb s)) (message_id m)))
                   (s\<lparr> sdb := rewrite_message m txt now (sdb s) \<rparr>))
       \<and> (Message_findOne_own (sdb s) k (sock_userId sock) = Some m
            \<and> \<not> message_referenced (sdb s) k \<longrightarrow>
             on_delete_message sock k s
               = io_to_emit (Channel_room (msg_channelId m)) (Message_deleted k)
                   (s\<lparr> sdb := without_message k (sdb s) \<rparr>))
       \<and> (Message_findOne_own (sdb s) k (sock_userId sock) = Some m
            \<and> message_referenced (sdb s) k \<longrightarrow>
             on_delete_message sock k s
               = socket_emit sock (Error_event ''Failed to delete message'') s
           \<and> sdb (on_delete_message sock k s) = sdb s)"
proof -
  have post: "on_send_message sock mid now txt cid s
                = socket_emit sock (Error_event ''Access denied'') s"
    using gone by (simp add: on_send_message_def)
  have http: "sendMessage mid now (sock_userId sock) txt cid (sdb s)
                = (Response 403 (ErrorJson ''Access denied''), sdb s)"
    using gone by (simp add: sendMessage_def)
  have react: "Message_findByPk (sdb s) k = Some m \<and> msg_channelId m = cid \<longrightarrow>
                 addReaction (sock_userId sock) k e (sdb s)
                   = (Response 403 (ErrorJson ''Access denied''), sdb s)"
    using gone by (simp add: addReaction_def)
  have edit: "Message_findOne_own (sdb s) k (sock_userId sock) = Some m \<and> len_ok 1 4000 txt \<longrightarrow>
             on_edit_message sock now k txt s
               = io_to_emit (Channel_room (msg_channelId m))
                   (Message_edited
                      (Message_findByPk (rewrite_message m txt now (sdb s)) (message_id m)))
                   (s\<lparr> sdb := rewrite_message m txt now (sdb s) \<rparr>)"
    by (simp add: on_edit_message_def Message_update_def)
  have del: "Message_findOne_own (sdb s) k (sock_userId sock) = Some m
            \<and> \<not> message_referenced (sdb s) k \<longrightarrow>
             on_delete_message sock k s
               = io_to_emit (Channel_room (msg_channelId m)) (Message_deleted k)
                   (s\<lparr> sdb := without_message k (sdb s) \<rparr>)"
    by (simp add: on_delete_message_def Message_destroy_def)
  have ref: "Message_findOne_own (sdb s) k (sock_userId sock) = Some m
            \<and> message_referenced (sdb s) k \<longrightarrow>
             on_delete_message sock k s
               = socket_emit sock (Error_event ''Failed to delete message'') s
           \<and> sdb (on_delete_message sock k s) = sdb s"
  proof
    assume a: "Message_findOne_own (sdb s) k (sock_userId sock) = Some m
               \<and> message_referenced (sdb s) k"
    then have ex: "k \<in> message_id ` set (messages (sdb s))"
      by (blast intro: own_message_exists)
    have "on_delete_message sock k s
            = socket_emit sock (Error_event ''Failed to delete message'') s"
      using a ex by (simp add: on_delete_message_def Message_destroy_def)
    then show "on_delete_message sock k s
                 = socket_emit sock (Error_event ''Failed to delete message'') s
               \<and> sdb (on_delete_message sock k s) = sdb s"
      by (simp add: socket_emit_def)
  qed
  show ?thesis
    using post http react edit del ref by (simp add: socket_emit_def)
qed

theorem membership_checked_on_post_and_react_witness:
  "ChannelMember_findOne (sdb alice_left) 10 (sock_userId alice_sock) = None
   \<and> Message_findByPk (sdb alice_left) 100 = Some seed_message
   \<and> msg_channelId seed_message = 10
   \<and> Message_findOne_own (sdb alice_left) 100 (sock_userId alice_sock) = Some seed_message
   \<and> len_ok 1 4000 ''edited''
   \<and> \<not> message_referenced (sdb alice_left) 100
   \<and> Message_findOne_own (sdb alice_left) 101 (sock_userId alice_sock)
       = Some (new_message 101 5 ''bye'' 2 10 50)
   \<and> message_referenced (sdb alice_left) 101
   \<and> on_send_message alice_sock 102 7 ''hello'' 10 alice_left
       = socket_emit alice_sock (Error_event ''Access denied'') alice_left
   \<and> addReaction (sock_userId alice_sock) 100 ''+1'' (sdb alice_left)
       = (Response 403 (ErrorJson ''Access denied''), sdb alice_left)
   \<and> sdb (on_edit_message alice_sock 6 100 ''edited'' alice_left)
       = rewrite_message seed_message ''edited'' 6 (sdb alice_left)
   \<and> on_delete_message alice_sock 100 alice_left
       = io_to_emit (Channel_room (msg_channelId seed_message)) (Message_deleted 100)
           (alice_left\<lparr> sdb := without_message 100 (sdb alice_left) \<rparr>)
   \<and> on_delete_message alice_sock 101 alice_left
       = socket_emit alice_sock (Error_event ''Failed to delete message'') alice_left"
proof -
  have h1: "ChannelMember_findOne (sdb alice_left) 10 (sock_userId alice_sock) = None"
    by code_simp
  have h2: "Message_findByPk (sdb alice_left) 100 = Some seed_message"
    by code_simp
  have h2c: "msg_channelId seed_message = 10" by (simp add: seed_message_def)
  have h3: "Message_findOne_own (sdb alice_left) 100 (sock_userId alice_sock) = Some seed_message"
    by code_simp
  have h3l: "len_ok 1 4000 ''edited''" by (simp add: len_ok_def)
  have h4: "\<not> message_referenced (sdb alice_left) 100" by code_simp
  have h5: "Message_findOne_own (sdb alice_left) 101 (sock_userId alice_sock)
              = Some (new_message 101 5 ''bye'' 2 10 50)"
    by code_simp
  have h6: "message_referenced (sdb alice_left) 101" by code_simp
  note t = membership_checked_on_post_and_react
             [OF h1, of 102 7 "''hello''" 100 seed_message "''+1''"]
  from t have c1: "on_send_message alice_sock 102 7 ''hello'' 10 alice_left
                     = socket_emit alice_sock (Error_event ''Access denied'') alice_left"
    by blast
  from t h2 h2c have c2: "addReaction (sock_userId alice_sock) 100 ''+1'' (sdb alice_left)
                     = (Response 403 (ErrorJson ''Access denied''), sdb alice_left)"
    by blast
  from t h3 h4 have c3: "on_delete_message alice_sock 100 alice_left
       = io_to_emit (Channel_room (msg_channelId seed_message)) (Message_deleted 100)
           (alice_left\<lparr> sdb := without_message 100 (sdb alice_left) \<rparr>)"
    by blast
  note t' = membership_checked_on_post_and_react
             [OF h1, of 102 6 "''edited''" 100 seed_message "''+1''"]
  from t' h3 h3l have "on_edit_message alice_sock 6 100 ''edited'' alice_left
       = io_to_emit (Channel_room (msg_channelId seed_message))
           (Message_edited
              (Message_findByPk (rewrite_message seed_message ''edited'' 6 (sdb alice_left))
                 (message_id seed_message)))
           (alice_left\<lparr> sdb := rewrite_message seed_message ''edited'' 6 (sdb alice_left) \<rparr>)"
    by blast
  then have c4: "sdb (on_edit_message alice_sock 6 100 ''edited'' alice_left)
       = rewrite_message seed_message ''edited'' 6 (sdb alice_left)"
    by (simp add: io_to_emit_def)
  note t'' = membership_checked_on_post_and_react
             [OF h1, of 102 7 "''hello''" 101 "new_message 101 5 ''bye'' 2 10 50" "''+1''"]
  from t'' h5 h6 have c5: "on_delete_message alice_sock 101 alice_left
       = socket_emit alice_sock (Error_event ''Failed to delete message'') alice_left"
    by blast
  show ?thesis using h1 h2 h2c h3 h3l h4 h5 h6 c1 c2 c3 c4 c5 by blast
qed

section \<open>Order of broadcasts and order of commits\<close>

text \<open>
  Claim C2, as stated, fails: nothing serializes two \<^verbatim>\<open>send-message\<close> handlers. Alice
  and bob, both members and both subscribed to the room of channel 10, post at the same
  time. Alice's insert is answered first (her row 101 is committed before bob's row 102),
  then bob's handler runs through to its broadcast before alice's handler is resumed.
  Both handlers finish; the table holds 100, 101, 102 in this order, but every subscriber
  receives 102 before 101 (and the channel's last-message pointer ends at 101). And a
  post of alice through the HTTP controller is committed (row 103) while no subscriber
  receives anything.
\<close>

theorem broadcast_order_differs_from_commit_order:
  "map job_pc (fst (interleave overtaking [alice_post, bob_post] seed_server))
     = [Finished, Finished]
   \<and> commit_order (snd (interleave overtaking [alice_post, bob_post] seed_server))
       = [100, 101, 102]
   \<and> new_message_ids
         (inbox (snd (interleave overtaking [alice_post, bob_post] seed_server)) (sock_id bob_sock))
       = [102, 101]
   \<and> new_message_ids
         (inbox (snd (interleave overtaking [alice_post, bob_post] seed_server)) (sock_id alice_sock))
       = [102, 101]
   \<and> map_option lastMessageId
         (Channel_findByPk (sdb (snd (interleave overtaking [alice_post, bob_post] seed_server))) 10)
       = Some (Some 101)
   \<and> commit_order (snd (http_sendMessage 103 8 2 ''over http'' 10 seed_server)) = [100, 103]
   \<and> inbox (snd (http_sendMessage 103 8 2 ''over http'' 10 seed_server)) (sock_id bob_sock) = []
   \<and> inbox (snd (http_sendMessage 103 8 2 ''over http'' 10 seed_server)) (sock_id alice_sock) = []"
  by code_simp

lemma new_message_ids_append:
  "new_message_ids (xs @ ys) = new_message_ids xs @ new_message_ids ys"
  by (induction xs rule: new_message_ids.induct) simp_all

lemma Message_create_Inr:
  assumes "Message_create mid now c u cid tid d = Inr (m, d1)"
  shows "m = new_message mid now c u cid tid \<and> d1 = d\<lparr> messages := messages d @ [m] \<rparr>
         \<and> find (\<lambda>x. message_id x = mid) (messages d) = None"
  using assms
  by (auto simp: Message_create_def Let_def find_None_iff split: if_splits)

lemma on_send_message_observed:
  assumes sub: "(i, Channel_room c) \<in> rooms s"
  shows "\<exists>new. commit_order (on_send_message sock mid now c' c s) = commit_order s @ new
             \<and> new_message_ids (inbox (on_send_message sock mid now c' c s) i)
                 = new_message_ids (inbox s i) @ new"
proof -
  have err: "\<exists>new. commit_order (socket_emit sock (Error_event e) s) = commit_order s @ new
             \<and> new_message_ids (inbox (socket_emit sock (Error_event e) s) i)
                 = new_message_ids (inbox s i) @ new" for e
    by (rule exI [of _ "[]"]) (simp add: socket_emit_def commit_order_def new_message_ids_append)
  show ?thesis
  proof (cases "ChannelMember_findOne (sdb s) c (sock_userId sock)")
    case None
    then show ?thesis using err by (simp add: on_send_message_def)
  next
    case (Some r)
    show ?thesis
    proof (cases "Channel_findByPk (sdb s) c")
      case None
      with Some show ?thesis using err by (simp add: on_send_message_def)
    next
      case ch: (Some ch)
      show ?thesis
      proof (cases "Message_create mid now c' (sock_userId sock) c (chan_teamId ch) (sdb s)")
        case (Inl ex)
        with Some ch show ?thesis using err by (simp add: on_send_message_def)
      next
        case (Inr p)
        obtain m d1 where p: "p = (m, d1)" by (cases p)
        note cr = Message_create_Inr [OF Inr [unfolded p]]
        let ?m = "new_message mid now c' (sock_userId sock) c (chan_teamId ch)"
        let ?d2 = "Channel_update_lastMessage c mid ((sdb s)\<lparr> messages := messages (sdb s) @ [?m] \<rparr>)"
        have id: "message_id ?m = mid" by (simp add: new_message_def)
        from cr have nf: "find (\<lambda>x. message_id x = mid) (messages (sdb s)) = None" by simp
        have found: "Message_findByPk ?d2 mid = Some ?m"
          by (simp add: Message_findByPk_def Channel_update_lastMessage_def
              find_app_miss [OF nf] id)
        have eq: "on_send_message sock mid now c' c s
                    = io_to_emit (Channel_room c) (New_message (Some ?m)) (s\<lparr> sdb := ?d2 \<rparr>)"
          using Some ch Inr p cr by (simp add: on_send_message_def id found)
        show ?thesis
          by (rule exI [of _ "[mid]"])
             (simp add: eq io_to_emit_def sub commit_order_def Channel_update_lastMessage_def
                new_message_ids_append id)
      qed
    qed
  qed
qed

lemma on_send_message_rooms: "rooms (on_send_message sock mid now c' c s) = rooms s"
  by (simp add: on_send_message_def socket_emit_def io_to_emit_def Let_def
      split: option.splits sum.splits prod.splits)

lemma send_all_observed:
  assumes "(i, Channel_room c) \<in> rooms s" and "\<forall>j \<in> set js. job_channelId j = c"
  shows "rooms (send_all js s) = rooms s
       \<and> (\<exists>new. commit_order (send_all js s) = commit_order s @ new
             \<and> new_message_ids (inbox (send_all js s) i) = new_message_ids (inbox s i) @ new)"
  using assms
proof (induction js arbitrary: s)
  case Nil
  show ?case by simp
next
  case (Cons j js)
  let ?s1 = "on_send_message (job_sock j) (job_uuid j) (job_now j) (job_content j) c s"
  have c: "job_channelId j = c" using Cons.prems(2) by simp
  have r1: "rooms ?s1 = rooms s" by (rule on_send_message_rooms)
  then have sub1: "(i, Channel_room c) \<in> rooms ?s1" using Cons.prems(1) by simp
  have rest: "\<forall>j \<in> set js. job_channelId j = c" using Cons.prems(2) by simp
  from on_send_message_observed [OF Cons.prems(1)]
  obtain n1 where n1: "commit_order ?s1 = commit_order s @ n1"
      "new_message_ids (inbox ?s1 i) = new_message_ids (inbox s i) @ n1"
    by blast
  from Cons.IH [OF sub1 rest]
  obtain n2 where n2: "rooms (send_all js ?s1) = rooms ?s1"
      "commit_order (send_all js ?s1) = commit_order ?s1 @ n2"
      "new_message_ids (inbox (send_all js ?s1) i) = new_message_ids (inbox ?s1 i) @ n2"
    by blast
  show ?case
    using n1 n2 r1 by (simp add: c)
qed

lemma send_steps_alone:
  "job_pc j = At_findOne \<Longrightarrow>
   send_steps 5 j s
     = (j\<lparr> job_pc := Finished \<rparr>,
        on_send_message (job_sock j) (job_uuid j) (job_now j) (job_content j) (job_channelId j) s)"
  by (auto simp: eval_nat_numeral send_step_def on_send_message_def Let_def
      dest!: Message_create_Inr split: option.splits sum.splits prod.splits)

lemma emit_error_view:
  "new_message_ids (inbox (socket_emit sock (Error_event e) s) i) = new_message_ids (inbox s i)"
  by (simp add: socket_emit_def new_message_ids_append)

lemma broadcast_view:
  "(i, r) \<in> rooms s \<Longrightarrow>
   new_message_ids (inbox (io_to_emit r ev s) i) = new_message_ids (inbox s i) @ new_message_ids [ev]"
  by (simp add: io_to_emit_def new_message_ids_append)

lemma send_step_keeps:
  "rooms (snd (send_step j s)) = rooms s \<and> job_channelId (fst (send_step j s)) = job_channelId j"
  by (simp add: send_step_def socket_emit_def io_to_emit_def
      split: send_pc.splits option.splits sum.splits prod.splits)

lemma send_step_same_view:
  assumes i: "(i, Channel_room c) \<in> rooms s" and i': "(i', Channel_room c) \<in> rooms s"
      and c: "job_channelId j = c"
  shows "\<exists>new. new_message_ids (inbox (snd (send_step j s)) i) = new_message_ids (inbox s i) @ new
             \<and> new_message_ids (inbox (snd (send_step j s)) i') = new_message_ids (inbox s i') @ new"
proof (cases "job_pc j")
  case (At_populate m)
  let ?ev = "New_message (Message_findByPk (sdb s) (message_id m))"
  have st: "snd (send_step j s) = io_to_emit (Channel_room c) ?ev s"
    using At_populate c by (simp add: send_step_def)
  show ?thesis
    by (rule exI [of _ "new_message_ids [?ev]"])
       (simp only: st broadcast_view [OF i] broadcast_view [OF i'])
next
  case At_findOne
  show ?thesis
    by (rule exI [of _ "[]"])
       (simp add: send_step_def At_findOne emit_error_view split: option.splits)
next
  case At_findByPk
  show ?thesis
    by (rule exI [of _ "[]"])
       (simp add: send_step_def At_findByPk emit_error_view split: option.splits)
next
  case (At_create tid)
  show ?thesis
    by (rule exI [of _ "[]"])
       (simp add: send_step_def At_create emit_error_view split: sum.splits prod.splits)
next
  case (At_update m)
  show ?thesis
    by (rule exI [of _ "[]"]) (simp add: send_step_def At_update)
next
  case Finished
  show ?thesis
    by (rule exI [of _ "[]"]) (simp add: send_step_def Finished)
qed

lemma interleave_same_view:
  assumes "(i, Channel_room c) \<in> rooms s" and "(i', Channel_room c) \<in> rooms s"
      and "\<forall>j \<in> set js. job_channelId j = c"
  shows "rooms (snd (interleave sched js s)) = rooms s
       \<and> (\<exists>new. new_message_ids (inbox (snd (interleave sched js s)) i)
                   = new_message_ids (inbox s i) @ new
               \<and> new_message_ids (inbox (snd (interleave sched js s)) i')
                   = new_message_ids (inbox s i') @ new)"
  using assms
proof (induction sched arbitrary: js s)
  case Nil
  show ?case by simp
next
  case (Cons k sched)
  show ?case
  proof (cases "k < length js")
    case False
    then show ?thesis using Cons.IH [OF Cons.prems] by simp
  next
    case True
    let ?j1 = "fst (send_step (js ! k) s)"
    let ?s1 = "snd (send_step (js ! k) s)"
    have cj: "job_channelId (js ! k) = c" using True Cons.prems(3) by simp
    have keep: "rooms ?s1 = rooms s" and cj1: "job_channelId ?j1 = c"
      using send_step_keeps [of "js ! k" s] cj by simp_all
    have r1: "(i, Channel_room c) \<in> rooms ?s1" and r1': "(i', Channel_room c) \<in> rooms ?s1"
      using Cons.prems(1,2) keep by simp_all
    have all1: "\<forall>j \<in> set (js[k := ?j1]). job_channelId j = c"
      using Cons.prems(3) cj1 set_update_subset_insert [of js k ?j1] by auto
    from send_step_same_view [OF Cons.prems(1) Cons.prems(2) cj]
    obtain n1 where n1: "new_message_ids (inbox ?s1 i) = new_message_ids (inbox s i) @ n1"
        "new_message_ids (inbox ?s1 i') = new_message_ids (inbox s i') @ n1"
      by blast
    from Cons.IH [OF r1 r1' all1]
    obtain n2 where n2: "rooms (snd (interleave sched (js[k := ?j1]) ?s1)) = rooms ?s1"
        "new_message_ids (inbox (snd (interleave sched (js[k := ?j1]) ?s1)) i)
           = new_message_ids (inbox ?s1 i) @ n2"
        "new_message_ids (inbox (snd (interleave sched (js[k := ?j1]) ?s1)) i')
           = new_message_ids (inbox ?s1 i') @ n2"
      by blast
    have unf: "interleave (k # sched) js s = interleave sched (js[k := ?j1]) ?s1"
      using True by (simp add: case_prod_beta)
    show ?thesis
      unfolding unf using n1 n2 keep by simp
  qed
qed

text \<open>
  Claim C2, amended. The code has no per-channel exclusion. Let the posts \<open>js\<close>, all to
  channel \<open>c\<close>, come in over the socket, and let the connections \<open>i\<close> and \<open>i'\<close> be
  subscribed to the room of \<open>c\<close>. Under every schedule of the handlers, interleaved at
  their awaits in any way, both stay subscribed and both receive the same sequence of
  \<^verbatim>\<open>new-message\<close> events: all subscribers observe the same total order. That order is
  the commit order when the handlers do not overlap: if the posts are handled one after
  the other, each handler run to its end before the next starts, the rows committed
  before are still the first rows of the table, and the ids of the events a subscriber
  received during the posts are exactly the ids of the rows committed during the posts,
  in commit order. A handler that is resumed five times in a row from its start, with no
  other handler in between, is such a run to the end. A post through the HTTP controller
  changes neither the subscriptions nor what any connection has received.
\<close>

theorem same_order_for_all_and_commit_order_when_sequential:
  assumes sub: "(i, Channel_room c) \<in> rooms s"
      and sub': "(i', Channel_room c) \<in> rooms s"
      and same: "\<forall>j \<in> set js. job_channelId j = c"
  shows "rooms (snd (interleave sched js s)) = rooms s
       \<and> (\<exists>new. new_message_ids (inbox (snd (interleave sched js s)) i)
                   = new_message_ids (inbox s i) @ new
               \<and> new_message_ids (inbox (snd (interleave sched js s)) i')
                   = new_message_ids (inbox s i') @ new)
       \<and> rooms (send_all js s) = rooms s
       \<and> take (length (commit_order s)) (commit_order (send_all js s)) = commit_order s
       \<and> new_message_ids (inbox (send_all js s) i)
           = new_message_ids (inbox s i)
             @ drop (length (commit_order s)) (commit_order (send_all js s))
       \<and> new_message_ids (inbox (send_all js s) i')
           = new_message_ids (inbox s i')
             @ drop (length (commit_order s)) (commit_order (send_all js s))
       \<and> (\<forall>j t. job_pc j = At_findOne \<longrightarrow>
             snd (send_steps 5 j t)
               = on_send_message (job_sock j) (job_uuid j) (job_now j) (job_content j)
                   (job_channelId j) t)
       \<and> rooms (snd (http_sendMessage mid now u body c s)) = rooms s
       \<and> inbox (snd (http_sendMessage mid now u body c s)) = inbox s"
proof -
  note il = interleave_same_view [OF sub sub' same, of sched]
  from send_all_observed [OF sub same]
  obtain new where r: "rooms (send_all js s) = rooms s"
    and c: "commit_order (send_all js s) = commit_order s @ new"
    and o: "new_message_ids (inbox (send_all js s) i) = new_message_ids (inbox s i) @ new"
    by blast
  from send_all_observed [OF sub' same]
  obtain new' where c': "commit_order (send_all js s) = commit_order s @ new'"
    and o': "new_message_ids (inbox (send_all js s) i') = new_message_ids (inbox s i') @ new'"
    by blast
  from c c' have nn: "new' = new" by simp
  have st: "\<forall>j t. job_pc j = At_findOne \<longrightarrow>
             snd (send_steps 5 j t)
               = on_send_message (job_sock j) (job_uuid j) (job_now j) (job_content j)
                   (job_channelId j) t"
    by (simp add: send_steps_alone)
  have http: "rooms (snd (http_sendMessage mid now u body c s)) = rooms s
              \<and> inbox (snd (http_sendMessage mid now u body c s)) = inbox s"
    by (simp add: http_sendMessage_def split: prod.splits)
  have seq: "rooms (send_all js s) = rooms s
       \<and> take (length (commit_order s)) (commit_order (send_all js s)) = commit_order s
       \<and> new_message_ids (inbox (send_all js s) i)
           = new_message_ids (inbox s i)
             @ drop (length (commit_order s)) (commit_order (send_all js s))
       \<and> new_message_ids (inbox (send_all js s) i')
           = new_message_ids (inbox s i')
             @ drop (length (commit_order s)) (commit_order (send_all js s))"
    using r by (simp add: c o o' nn)
  show ?thesis
    using il seq st http by blast
qed

theorem same_order_for_all_and_commit_order_when_sequential_witness:
  "(sock_id bob_sock, Channel_room 10) \<in> rooms seed_server
   \<and> (sock_id alice_sock, Channel_room 10) \<in> rooms seed_server
   \<and> job_channelId alice_post = 10 \<and> job_channelId bob_post = 10
   \<and> commit_order seed_server = [100]
   \<and> new_message_ids (inbox seed_server (sock_id bob_sock)) = []
   \<and> new_message_ids (inbox seed_server (sock_id alice_sock)) = []
   \<and> new_message_ids
         (inbox (snd (interleave overtaking [alice_post, bob_post] seed_server)) (sock_id bob_sock))
       = new_message_ids
           (inbox (snd (interleave overtaking [alice_post, bob_post] seed_server))
              (sock_id alice_sock))
   \<and> commit_order (send_all [alice_post, bob_post] seed_server) = [100, 101, 102]
   \<and> new_message_ids (inbox (send_all [alice_post, bob_post] seed_server) (sock_id bob_sock))
       = [101, 102]
   \<and> new_message_ids (inbox (send_all [alice_post, bob_post] seed_server) (sock_id alice_sock))
       = [101, 102]"
proof -
  have h1: "(sock_id bob_sock, Channel_room 10) \<in> rooms seed_server"
    by (simp add: seed_server_def bob_sock_def)
  have h1': "(sock_id alice_sock, Channel_room 10) \<in> rooms seed_server"
    by (simp add: seed_server_def alice_sock_def)
  have h2: "\<forall>j \<in> set [alice_post, bob_post]. job_channelId j = 10"
    by (simp add: alice_post_def bob_post_def)
  have h2': "job_channelId alice_post = 10 \<and> job_channelId bob_post = 10"
    using h2 by simp
  have c0: "commit_order seed_server = [100]"
    by (simp add: commit_order_def seed_server_def seed_db_def seed_message_def)
  have i0: "new_message_ids (inbox seed_server (sock_id bob_sock)) = []"
    and i0': "new_message_ids (inbox seed_server (sock_id alice_sock)) = []"
    by (simp_all add: seed_server_def)
  have c1: "commit_order (send_all [alice_post, bob_post] seed_server) = [100, 101, 102]"
    by code_simp
  note t = same_order_for_all_and_commit_order_when_sequential
             [OF h1 h1' h2, of overtaking 0 0 0 "[]"]
  from t obtain new where
      "new_message_ids
         (inbox (snd (interleave overtaking [alice_post, bob_post] seed_server)) (sock_id bob_sock))
       = new_message_ids (inbox seed_server (sock_id bob_sock)) @ new"
      "new_message_ids
         (inbox (snd (interleave overtaking [alice_post, bob_post] seed_server)) (sock_id alice_sock))
       = new_message_ids (inbox seed_server (sock_id alice_sock)) @ new"
    by blast
  then have e: "new_message_ids
         (inbox (snd (interleave overtaking [alice_post, bob_post] seed_server)) (sock_id bob_sock))
       = new_message_ids
           (inbox (snd (interleave overtaking [alice_post, bob_post] seed_server))
              (sock_id alice_sock))"
    unfolding i0 i0' by simp
  from t
  have "new_message_ids (inbox (send_all [alice_post, bob_post] seed_server) (sock_id bob_sock))
          = new_message_ids (inbox seed_server (sock_id bob_sock))
            @ drop (length (commit_order seed_server))
                (commit_order (send_all [alice_post, bob_post] seed_server))"
    by blast
  then have c2: "new_message_ids
                   (inbox (send_all [alice_post, bob_post] seed_server) (sock_id bob_sock))
                 = [101, 102]"
    unfolding c0 c1 i0 by simp
  from t
  have "new_message_ids (inbox (send_all [alice_post, bob_post] seed_server) (sock_id alice_sock))
          = new_message_ids (inbox seed_server (sock_id alice_sock))
            @ drop (length (commit_order seed_server))
                (commit_order (send_all [alice_post, bob_post] seed_server))"
    by blast
  then have c3: "new_message_ids
                   (inbox (send_all [alice_post, bob_post] seed_server) (sock_id alice_sock))
                 = [101, 102]"
    unfolding c0 c1 i0' by simp
  show ?thesis using h1 h1' h2' c0 i0 i0' e c1 c2 c3 by blast
qed

end
